theory Spec2Isabelle
  imports Complex_Main "HOL-Library.Word" "HOL-Library.AList"
begin

unbundle bit_operations_syntax

section \<open>Python values used by the service\<close>

text \<open>
  The service is a Flask application (\<^verbatim>\<open>app.py\<close>) over two helper modules
  (\<^verbatim>\<open>utils/storage.py\<close>, \<^verbatim>\<open>utils/inference.py\<close>) and a configuration class
  (\<^verbatim>\<open>config.py\<close>). Every exception the code can raise is a value of \<open>py_error\<close>;
  a function that may raise returns \<open>py_error + 'a\<close>, with \<open>Inl\<close> the exception.
\<close>

datatype py_error =
    IndexError | KeyError | ValueError | FileNotFoundError | IsADirectoryError | OSError
  | DecodeError | ModelLoadError

subsection \<open>Strings\<close>

text \<open>
  Strings are lists of characters. \<^verbatim>\<open>str.lower\<close> and \<^verbatim>\<open>str.upper\<close> are modelled on
  the ASCII letters and leave every other character alone. Python's versions also change
  non-ASCII letters, but the only code points outside ASCII whose lower or upper case is
  an ASCII letter are the Kelvin sign (lower case \<open>k\<close>), the dotless i (upper case \<open>I\<close>)
  and the long s (upper case \<open>S\<close>): none of these letters occurs in the words the code
  compares against (\<open>png\<close>, \<open>jpg\<close>, \<open>jpeg\<close>, \<open>dcm\<close>, \<open>NORMAL\<close>).
\<close>

definition char_lower :: "char \<Rightarrow> char" where
  "char_lower c =
     (case map_of (zip ''ABCDEFGHIJKLMNOPQRSTUVWXYZ'' ''abcdefghijklmnopqrstuvwxyz'') c of
        Some d \<Rightarrow> d
      | None \<Rightarrow> c)"

definition char_upper :: "char \<Rightarrow> char" where
  "char_upper c =
     (case map_of (zip ''abcdefghijklmnopqrstuvwxyz'' ''ABCDEFGHIJKLMNOPQRSTUVWXYZ'') c of
        Some d \<Rightarrow> d
      | None \<Rightarrow> c)"

definition str_lower :: "string \<Rightarrow> string" where
  "str_lower s = map char_lower s"

definition str_upper :: "string \<Rightarrow> string" where
  "str_upper s = map char_upper s"

definition startswith :: "string \<Rightarrow> string \<Rightarrow> bool" where
  \<comment> \<open>\<^verbatim>\<open>name.startswith(prefix)\<close>\<close>
  "startswith name pre = (take (length pre) name = pre)"

definition rsplit1 :: "char \<Rightarrow> string \<Rightarrow> string list" where
  \<comment> \<open>\<^verbatim>\<open>s.rsplit(sep, 1)\<close>: split once, at the last separator; no separator, no split\<close>
  "rsplit1 sep s =
     (if sep \<in> set s
      then [rev (tl (dropWhile (\<lambda>c. c \<noteq> sep) (rev s))), rev (takeWhile (\<lambda>c. c \<noteq> sep) (rev s))]
      else [s])"

definition rstrip :: "char \<Rightarrow> string \<Rightarrow> string" where
  \<comment> \<open>\<^verbatim>\<open>s.rstrip(c)\<close> for a single character\<close>
  "rstrip c s = rev (dropWhile (\<lambda>d. d = c) (rev s))"

section \<open>Storage helper (utils/storage.py)\<close>

definition is_allowed_file :: "string \<Rightarrow> string set \<Rightarrow> bool" where
  "is_allowed_file filename allowed_extensions =
     (if CHR ''.'' \<notin> set filename then False
      else (let extension = str_lower (rsplit1 CHR ''.'' filename ! 1)
            in extension \<in> allowed_extensions))"

definition ALLOWED_EXTENSIONS_default :: "string set" where
  "ALLOWED_EXTENSIONS_default = {''png'', ''jpg'', ''jpeg'', ''dcm''}"


text \<open>
  \<^verbatim>\<open>uuid.uuid4()\<close> draws 16 random bytes and overwrites the variant and version bits;
  \<^verbatim>\<open>.hex\<close> prints the 128 bits as 32 lower-case hexadecimal digits, most significant
  first. The random bytes are the argument.
\<close>

definition uuid4 :: "128 word \<Rightarrow> 128 word" where
  "uuid4 r =
     (((r AND NOT (push_bit 48 0xc000)) OR push_bit 48 0x8000)
        AND NOT (push_bit 64 0xf000)) OR push_bit 76 4"

definition hex_digit :: "nat \<Rightarrow> char" where
  "hex_digit n = ''0123456789abcdef'' ! n"

definition uuid_hex :: "128 word \<Rightarrow> string" where
  "uuid_hex u = map (\<lambda>i. hex_digit (unat (drop_bit (4 * (31 - i)) u AND 15))) [0..<32]"

definition generate_image_id :: "128 word \<Rightarrow> string" where
  "generate_image_id r = ''oct_'' @ take 8 (uuid_hex (uuid4 r))"

definition is_lower_hex :: "char \<Rightarrow> bool" where
  "is_lower_hex c = (c \<in> set ''0123456789abcdef'')"

definition matches_image_id_pattern :: "string \<Rightarrow> bool" where
  \<comment> \<open>the regular expression \<^verbatim>\<open>^oct_[0-9a-f]{8}$\<close>\<close>
  "matches_image_id_pattern s =
     (length s = 12 \<and> take 4 s = ''oct_'' \<and> list_all is_lower_hex (drop 4 s))"

text \<open>
  \<^verbatim>\<open>secure_filename\<close> belongs to Werkzeug, not to this repository: it is a parameter.
\<close>

definition build_saved_filename :: "(string \<Rightarrow> string) \<Rightarrow> string \<Rightarrow> string \<Rightarrow> string" where
  "build_saved_filename secure_filename image_id original_filename =
     (image_id @ ''_'') @ secure_filename original_filename"

subsection \<open>Paths and the file system\<close>

text \<open>\<^verbatim>\<open>posixpath.join\<close> with two arguments, \<^verbatim>\<open>posixpath.split\<close> and \<^verbatim>\<open>basename\<close>.\<close>

definition os_path_join :: "string \<Rightarrow> string \<Rightarrow> string" where
  "os_path_join a b =
     (if startswith b ''/'' then b
      else if a = [] \<or> last a = CHR ''/'' then a @ b
      else a @ ''/'' @ b)"

definition os_path_split :: "string \<Rightarrow> string \<times> string" where
  "os_path_split p =
     (let tail = rev (takeWhile (\<lambda>c. c \<noteq> CHR ''/'') (rev p));
          head = rev (dropWhile (\<lambda>c. c \<noteq> CHR ''/'') (rev p))
      in (if head \<noteq> [] \<and> head \<noteq> replicate (length head) CHR ''/''
          then rstrip CHR ''/'' head else head, tail))"

definition os_path_basename :: "string \<Rightarrow> string" where
  "os_path_basename p = rev (takeWhile (\<lambda>c. c \<noteq> CHR ''/'') (rev p))"

text \<open>
  The service keeps three flat directories and the model file. A file system maps the
  path of a directory to its entries, in listing order; an entry is a name and the
  file's content. A path that is not mapped is not a directory.
\<close>

type_synonym 'b directory = "(string \<times> 'b) list"
type_synonym 'b filesystem = "string \<Rightarrow> 'b directory option"

definition os_path_isdir :: "'b filesystem \<Rightarrow> string \<Rightarrow> bool" where
  "os_path_isdir fs d = (fs d \<noteq> None)"

definition os_listdir :: "'b filesystem \<Rightarrow> string \<Rightarrow> string list" where
  \<comment> \<open>raises on a path that is not a directory; the one caller checks \<open>os_path_isdir\<close> first\<close>
  "os_listdir fs d = (case fs d of None \<Rightarrow> [] | Some entries \<Rightarrow> map fst entries)"

definition read_file :: "'b filesystem \<Rightarrow> string \<Rightarrow> py_error + 'b" where
  "read_file fs path =
     (case fs (fst (os_path_split path)) of
        None \<Rightarrow> Inl FileNotFoundError
      | Some entries \<Rightarrow>
          (case map_of entries (snd (os_path_split path)) of
             None \<Rightarrow> Inl FileNotFoundError
           | Some b \<Rightarrow> Inr b))"

definition NAME_MAX :: nat where
  \<comment> \<open>the longest file name, in bytes, that the file system accepts\<close>
  "NAME_MAX = 255"

definition write_file :: "'b filesystem \<Rightarrow> string \<Rightarrow> 'b \<Rightarrow> py_error + 'b filesystem" where
  \<comment> \<open>create or overwrite the file at the path (\<^verbatim>\<open>open(path, "wb")\<close> and write): its
      directory must exist and its name must not be longer than \<open>NAME_MAX\<close>; a file of
      that name is replaced, in its place in the listing\<close>
  "write_file fs path b =
     (case fs (fst (os_path_split path)) of
        None \<Rightarrow> Inl FileNotFoundError
      | Some entries \<Rightarrow>
          if snd (os_path_split path) = [] then Inl IsADirectoryError
          else if NAME_MAX < length (snd (os_path_split path)) then Inl OSError
          else Inr (fs(fst (os_path_split path) \<mapsto> AList.update (snd (os_path_split path)) b entries)))"

definition os_path_exists :: "'b filesystem \<Rightarrow> string \<Rightarrow> bool" where
  "os_path_exists fs path =
     (os_path_isdir fs path \<or> (case read_file fs path of Inl _ \<Rightarrow> False | Inr _ \<Rightarrow> True))"

definition os_makedirs :: "'b filesystem \<Rightarrow> string \<Rightarrow> 'b filesystem" where
  \<comment> \<open>\<^verbatim>\<open>os.makedirs(directory, exist_ok=True)\<close>\<close>
  "os_makedirs fs d = (case fs d of None \<Rightarrow> fs(d \<mapsto> []) | Some _ \<Rightarrow> fs)"

fun ensure_directories :: "'b filesystem \<Rightarrow> string list \<Rightarrow> 'b filesystem" where
  "ensure_directories fs [] = fs"
| "ensure_directories fs (directory # directories) =
     ensure_directories (os_makedirs fs directory) directories"

fun scan_names :: "string \<Rightarrow> string \<Rightarrow> string list \<Rightarrow> string option" where
  \<comment> \<open>the \<^verbatim>\<open>for name in os.listdir(upload_folder)\<close> loop\<close>
  "scan_names pre upload_folder [] = None"
| "scan_names pre upload_folder (name # names) =
     (if startswith name pre then Some (os_path_join upload_folder name)
      else scan_names pre upload_folder names)"

definition find_image_path_by_id :: "'b filesystem \<Rightarrow> string \<Rightarrow> string \<Rightarrow> string option" where
  "find_image_path_by_id fs image_id upload_folder =
     (if \<not> os_path_isdir fs upload_folder then None
      else scan_names (image_id @ ''_'') upload_folder (os_listdir fs upload_folder))"

section \<open>Configuration (config.py)\<close>

record config =
  UPLOAD_FOLDER :: string
  RESULTS_FOLDER :: string
  REPORTS_FOLDER :: string
  ALLOWED_EXTENSIONS :: "string set"
  MAX_CONTENT_LENGTH :: nat
  SERVER_BASE_URL :: string
  CORS_ALLOW_ALL :: bool
  MODEL_PATH :: string
  CLASS_NAMES :: "string list"

definition Config :: "string \<Rightarrow> string \<Rightarrow> config" where
  \<comment> \<open>the arguments: the absolute path of the source directory, and the environment's
      \<^verbatim>\<open>SERVER_BASE_URL\<close> (empty when unset)\<close>
  "Config base_dir server_base_url =
     \<lparr>UPLOAD_FOLDER = os_path_join base_dir ''uploads'',
      RESULTS_FOLDER = os_path_join base_dir ''results'',
      REPORTS_FOLDER = os_path_join base_dir ''reports'',
      ALLOWED_EXTENSIONS = {''png'', ''jpg'', ''jpeg'', ''dcm''},
      MAX_CONTENT_LENGTH = 10 * 1024 * 1024,
      SERVER_BASE_URL = server_base_url,
      CORS_ALLOW_ALL = True,
      MODEL_PATH = os_path_join base_dir ''best_oct_classifier_ft.h5'',
      CLASS_NAMES = [''AMD'', ''CNV'', ''CSR'', ''DME'', ''DR'', ''DRUSEN'', ''MH'', ''NORMAL'']\<rparr>"

section \<open>Inference adapter (utils/inference.py)\<close>

text \<open>
  Keras, NumPy, ReportLab and Werkzeug are outside the repository. What the code calls
  from them is a field of \<open>externals\<close>: \<open>'b\<close> is the content of a file, \<open>'x\<close> the
  preprocessed input tensor, \<open>flowable\<close> an element of a ReportLab document (a table
  cell is a flowable too, \<open>Str\<close> when it is plain text; widths, colours and table
  styles are left out). \<open>format_fixed d v\<close> is \<^verbatim>\<open>format(v, ".df")\<close>, \<open>str_float\<close> is
  \<^verbatim>\<open>str\<close> on a float, \<open>rl_image_ok\<close> says whether ReportLab accepts a file as an image,
  and \<open>render_pdf\<close> is \<^verbatim>\<open>doc.build\<close> with the footer text. A loaded model is the function from a tensor to the first
  row of \<^verbatim>\<open>model.predict\<close>. Probabilities are real numbers (a float that is not a number
  is not modelled).
\<close>

type_synonym 'x model = "'x \<Rightarrow> real list"

datatype flowable =
    Paragraph string string
  | Spacer nat nat
  | RLImage string
  | Str string
  | Table "flowable list list"

record ('b, 'x) externals =
  keras_load_model :: "'b \<Rightarrow> py_error + 'x model"
  keras_load_img :: "'b \<Rightarrow> py_error + 'x"
  secure_filename :: "string \<Rightarrow> string"
  format_fixed :: "nat \<Rightarrow> real \<Rightarrow> string"
  str_float :: "real \<Rightarrow> string"
  rl_image_ok :: "'b \<Rightarrow> bool"
  render_pdf :: "flowable list \<Rightarrow> string \<Rightarrow> 'b"

definition DEFAULT_CLASS_NAMES :: "string list" where
  "DEFAULT_CLASS_NAMES = [''AMD'', ''CNV'', ''CSR'', ''DME'', ''DR'', ''DRUSEN'', ''MH'', ''NORMAL'']"

definition load_model :: "('b, 'x) externals \<Rightarrow> 'b filesystem \<Rightarrow> string \<Rightarrow> py_error + 'x model" where
  "load_model ext fs model_path =
     (case read_file fs model_path of Inl e \<Rightarrow> Inl e | Inr b \<Rightarrow> keras_load_model ext b)"

definition load_img :: "('b, 'x) externals \<Rightarrow> 'b filesystem \<Rightarrow> string \<Rightarrow> py_error + 'x" where
  \<comment> \<open>\<^verbatim>\<open>load_img\<close>, \<^verbatim>\<open>img_to_array\<close>, \<^verbatim>\<open>expand_dims\<close> and \<^verbatim>\<open>preprocess_input\<close>\<close>
  "load_img ext fs image_path =
     (case read_file fs image_path of Inl e \<Rightarrow> Inl e | Inr b \<Rightarrow> keras_load_img ext b)"

definition get_model ::
  "(string \<Rightarrow> py_error + 'm) \<Rightarrow> string \<Rightarrow> 'm option \<Rightarrow> (py_error + 'm) \<times> 'm option" where
  \<comment> \<open>the third argument and the second result are the global \<^verbatim>\<open>_model\<close>; when the load
      raises, the assignment to \<^verbatim>\<open>_model\<close> is not reached\<close>
  "get_model loader model_path slot =
     (case slot of
        None \<Rightarrow>
          (case loader model_path of
             Inl e \<Rightarrow> (Inl e, None)
           | Inr m \<Rightarrow> (Inr m, Some m))
      | Some m \<Rightarrow> (Inr m, Some m))"

fun argmax_loop :: "real list \<Rightarrow> nat \<Rightarrow> nat \<Rightarrow> real \<Rightarrow> nat" where
  "argmax_loop [] i best best_value = best"
| "argmax_loop (p # ps) i best best_value =
     (if best_value < p then argmax_loop ps (Suc i) i p
      else argmax_loop ps (Suc i) best best_value)"

definition np_argmax :: "real list \<Rightarrow> py_error + nat" where
  \<comment> \<open>the first position of the largest entry; an empty vector raises\<close>
  "np_argmax probs =
     (case probs of [] \<Rightarrow> Inl ValueError | p # ps \<Rightarrow> Inr (argmax_loop ps 1 0 p))"

definition list_index :: "'a list \<Rightarrow> nat \<Rightarrow> py_error + 'a" where
  "list_index xs i = (if i < length xs then Inr (xs ! i) else Inl IndexError)"

fun dict_comprehension ::
  "string list \<Rightarrow> real list \<Rightarrow> nat list \<Rightarrow> (string \<times> real) list \<Rightarrow> py_error + (string \<times> real) list" where
  \<comment> \<open>\<^verbatim>\<open>{class_names[i]: float(probs[i]) for i in ...}\<close>; a dictionary keeps the position
      of a key's first insertion and the value of its last\<close>
  "dict_comprehension class_names probs [] d = Inr d"
| "dict_comprehension class_names probs (i # rest) d =
     (case list_index class_names i of
        Inl e \<Rightarrow> Inl e
      | Inr k \<Rightarrow>
          (case list_index probs i of
             Inl e \<Rightarrow> Inl e
           | Inr v \<Rightarrow> dict_comprehension class_names probs rest (AList.update k v d)))"

record prediction_result =
  predictions :: "(string \<times> real) list"
  top_disease :: string
  confidence :: real

definition classify :: "string list \<Rightarrow> real list \<Rightarrow> py_error + prediction_result" where
  \<comment> \<open>lines 32 to 38 of \<^verbatim>\<open>predict_oct\<close>, from the output vector on\<close>
  "classify class_names probs =
     (case np_argmax probs of
        Inl e \<Rightarrow> Inl e
      | Inr top_idx \<Rightarrow>
          (case dict_comprehension class_names probs [0..<length class_names] [] of
             Inl e \<Rightarrow> Inl e
           | Inr preds \<Rightarrow>
               (case list_index class_names top_idx of
                  Inl e \<Rightarrow> Inl e
                | Inr label \<Rightarrow>
                    (case list_index probs top_idx of
                       Inl e \<Rightarrow> Inl e
                     | Inr conf \<Rightarrow>
                         Inr \<lparr>predictions = preds, top_disease = label, confidence = conf\<rparr>))))"

definition predict_oct ::
  "('b, 'x) externals \<Rightarrow> 'b filesystem \<Rightarrow> 'x model option \<Rightarrow> string \<Rightarrow> string \<Rightarrow> string list option
     \<Rightarrow> (py_error + prediction_result) \<times> 'x model option" where
  "predict_oct ext fs slot image_path model_path class_names_arg =
     (let class_names = (case class_names_arg of None \<Rightarrow> DEFAULT_CLASS_NAMES | Some c \<Rightarrow> c)
      in case get_model (load_model ext fs) model_path slot of
           (Inl e, slot') \<Rightarrow> (Inl e, slot')
         | (Inr model, slot') \<Rightarrow>
             (case load_img ext fs image_path of
                Inl e \<Rightarrow> (Inl e, slot')
              | Inr x \<Rightarrow> (classify class_names (model x), slot')))"

section \<open>HTTP handlers and report generator (app.py)\<close>

datatype json = JStr string | JNum real | JObj "(string \<times> json) list"

text \<open>
  A handler answers with a JSON body (\<^verbatim>\<open>jsonify\<close>), with \<^verbatim>\<open>abort(code, description)\<close>,
  with a file (\<^verbatim>\<open>send_file\<close>: path and download name), or an exception escapes it and
  Flask answers 500. \<open>HttpError\<close> is an HTTP error that Flask raises itself while the
  handler runs: reading \<^verbatim>\<open>request.files\<close> parses the body, and a body longer than the
  configured \<^verbatim>\<open>MAX_CONTENT_LENGTH\<close> is refused there with 413.
\<close>

datatype response =
    Json "(string \<times> json) list"
  | Abort nat string
  | HttpError nat
  | Unhandled py_error
  | SendFile string string

record 'b file_storage =
  filename :: string
  stream :: 'b

record 'b request =
  content_length :: nat
  files :: "string \<Rightarrow> 'b file_storage option"
  host_url :: string

record ('b, 'x) app_state =
  model_slot :: "'x model option"
  disk :: "'b filesystem"

definition create_app :: "config \<Rightarrow> 'b filesystem \<Rightarrow> ('b, 'x) app_state" where
  \<comment> \<open>the state after start-up: no model loaded, the three directories present\<close>
  "create_app cfg fs =
     \<lparr>model_slot = None,
      disk = ensure_directories fs [UPLOAD_FOLDER cfg, RESULTS_FOLDER cfg, REPORTS_FOLDER cfg]\<rparr>"

definition upload_image ::
  "('b, 'x) externals \<Rightarrow> config \<Rightarrow> 'b request \<Rightarrow> 128 word \<Rightarrow> ('b, 'x) app_state
     \<Rightarrow> response \<times> ('b, 'x) app_state" where
  \<comment> \<open>the first test is Flask's, made when line 50 reads \<^verbatim>\<open>request.files\<close>\<close>
  "upload_image ext cfg req rnd st =
     (if MAX_CONTENT_LENGTH cfg < content_length req then (HttpError 413, st)
      else case files req ''image'' of
        None \<Rightarrow> (Abort 400 ''No file provided.'', st)
      | Some file \<Rightarrow>
          if filename file = [] then (Abort 400 ''No file provided.'', st)
          else if \<not> is_allowed_file (filename file) (ALLOWED_EXTENSIONS cfg)
          then (Abort 400 ''Unsupported file type.'', st)
          else
            (let image_id = generate_image_id rnd;
                 safe_name = build_saved_filename (secure_filename ext) image_id (filename file);
                 save_path = os_path_join (UPLOAD_FOLDER cfg) safe_name
             in case write_file (disk st) save_path (stream file) of
                  Inl e \<Rightarrow> (Unhandled e, st)
                | Inr fs' \<Rightarrow>
                    (Json [(''status'', JStr ''success''),
                           (''image_id'', JStr image_id),
                           (''message'', JStr ''Image uploaded successfully.'')],
                     st\<lparr>disk := fs'\<rparr>)))"

definition predict_texts :: "('b, 'x) externals \<Rightarrow> prediction_result \<Rightarrow> string \<times> string" where
  \<comment> \<open>lines 80 to 87: summary and recommendation of \<^verbatim>\<open>GET /predict\<close>\<close>
  "predict_texts ext result =
     (let top_label = top_disease result;
          conf_pct = confidence result * 100
      in if str_upper top_label = ''NORMAL''
         then (''AI suggests no significant abnormalities detected (''
                 @ format_fixed ext 1 conf_pct @ ''% confidence).'',
               ''Routine monitoring advised; follow standard screening intervals.'')
         else (''AI suggests '' @ top_label @ '' with ''
                 @ format_fixed ext 1 conf_pct @ ''% confidence.'',
               ''Recommend ophthalmology evaluation and correlation with clinical findings.''))"

definition predictions_json :: "(string \<times> real) list \<Rightarrow> json" where
  "predictions_json preds = JObj (map (\<lambda>(k, v). (k, JNum v)) preds)"

definition predict ::
  "('b, 'x) externals \<Rightarrow> config \<Rightarrow> string \<Rightarrow> ('b, 'x) app_state \<Rightarrow> response \<times> ('b, 'x) app_state" where
  "predict ext cfg image_id st =
     (case find_image_path_by_id (disk st) image_id (UPLOAD_FOLDER cfg) of
        None \<Rightarrow> (Abort 404 ''Image not found.'', st)
      | Some image_path \<Rightarrow>
          (case predict_oct ext (disk st) (model_slot st) image_path (MODEL_PATH cfg)
                  (Some (CLASS_NAMES cfg)) of
             (Inl e, slot') \<Rightarrow> (Unhandled e, st\<lparr>model_slot := slot'\<rparr>)
           | (Inr result, slot') \<Rightarrow>
               (Json [(''image_id'', JStr image_id),
                      (''predictions'', predictions_json (predictions result)),
                      (''top_disease'', JStr (top_disease result)),
                      (''confidence'', JNum (confidence result)),
                      (''summary'', JStr (fst (predict_texts ext result))),
                      (''recommendation'', JStr (snd (predict_texts ext result)))],
                st\<lparr>model_slot := slot'\<rparr>)))"

definition mask_route ::
  "config \<Rightarrow> 'b request \<Rightarrow> string \<Rightarrow> ('b, 'x) app_state \<Rightarrow> response \<times> ('b, 'x) app_state" where
  \<comment> \<open>the handler \<^verbatim>\<open>mask\<close> of \<^verbatim>\<open>GET /mask/<id>\<close>; \<open>mask\<close> alone is a library constant\<close>
  "mask_route cfg req image_id st =
     (let base = (if SERVER_BASE_URL cfg \<noteq> [] then rstrip CHR ''/'' (SERVER_BASE_URL cfg)
                  else rstrip CHR ''/'' (host_url req));
          overlay_mask_url = base @ ''/results/result.jpg'';
          retinal_layer_thickness =
            [(''rnfl'', JNum 76.4), (''gcl'', JNum 31.9), (''ipl'', JNum 21.7),
             (''opl'', JNum 19.4), (''inl'', JNum 18.1), (''onl'', JNum 85.2)]
      in (Json [(''image_id'', JStr image_id),
                (''overlay_mask_url'', JStr overlay_mask_url),
                (''retinal_layer_thickness'', JObj retinal_layer_thickness),
                (''notes'', JStr ''RNFL thinning detected, consistent with glaucoma risk.'')],
          st))"

subsection \<open>The report\<close>

record report_data =
  data_image_id :: string
  data_predictions :: "(string \<times> real) list"
  data_top_disease :: string
  data_confidence :: real
  data_generated_at :: string
  data_retinal_layer_thickness :: "(string \<times> real) list"

definition report_texts :: "('b, 'x) externals \<Rightarrow> report_data \<Rightarrow> string \<times> string" where
  \<comment> \<open>lines 182 to 188: summary and recommendation of the report\<close>
  "report_texts ext data =
     (let conf_pct = data_confidence data * 100
      in if str_upper (data_top_disease data) = ''NORMAL''
         then (''AI suggests no significant abnormalities detected (''
                 @ format_fixed ext 1 conf_pct @ ''% confidence).'',
               ''Routine monitoring advised; follow standard screening intervals.'')
         else (''AI suggests '' @ data_top_disease data @ '' with ''
                 @ format_fixed ext 1 conf_pct @ ''% confidence.'',
               ''Recommend ophthalmology evaluation and correlation with clinical findings.''))"

definition disease_full_name :: "(string \<times> string) list" where
  "disease_full_name =
     [(''AMD'', ''AMD (Age-Related Macular Degeneration)''),
      (''CNV'', ''CNV (Choroidal Neovascularization)''),
      (''CSR'', ''CSR (Central Serous Retinopathy)''),
      (''DME'', ''DME (Diabetic Macular Edema)''),
      (''DR'', ''DR (Diabetic Retinopathy)''),
      (''DRUSEN'', ''DRUSEN (Diabetic Retinopathy with Uveitis)''),
      (''MH'', ''MH (Macular Hole)''),
      (''NORMAL'', ''NORMAL (Normal)'')]"

fun pred_rows_loop ::
  "('b, 'x) externals \<Rightarrow> (string \<times> real) list \<Rightarrow> flowable list list \<Rightarrow> py_error + flowable list list" where
  \<comment> \<open>\<^verbatim>\<open>for disease, prob in data["predictions"].items()\<close>; a label missing from
      \<open>disease_full_name\<close> raises\<close>
  "pred_rows_loop ext [] pred_rows = Inr pred_rows"
| "pred_rows_loop ext ((disease, prob) # items) pred_rows =
     (case map_of disease_full_name disease of
        None \<Rightarrow> Inl KeyError
      | Some full_name \<Rightarrow>
          pred_rows_loop ext items
            (pred_rows @ [[Str full_name, Str (format_fixed ext 2 (prob * 100) @ ''%'')]]))"

definition th_rows :: "('b, 'x) externals \<Rightarrow> (string \<times> real) list \<Rightarrow> flowable list list" where
  "th_rows ext thickness =
     [Str ''Layer'', Str (''Thickness ('' @ [CHR 0xC2, CHR 0xB5] @ ''m)'')]
       # map (\<lambda>(layer, v). [Str layer, Str (str_float ext v)]) thickness"

definition safe_image :: "('b, 'x) externals \<Rightarrow> 'b filesystem \<Rightarrow> string \<Rightarrow> flowable option" where
  \<comment> \<open>\<^verbatim>\<open>_safe_image\<close>: any exception of the image constructor gives \<^verbatim>\<open>None\<close>\<close>
  "safe_image ext fs path =
     (case read_file fs path of
        Inl _ \<Rightarrow> None
      | Inr b \<Rightarrow> if rl_image_ok ext b then Some (RLImage path) else None)"

definition image_section ::
  "('b, 'x) externals \<Rightarrow> config \<Rightarrow> 'b filesystem \<Rightarrow> string \<Rightarrow> string \<Rightarrow> flowable list" where
  "image_section ext cfg fs image_id image_path =
     (let mask_candidate_1 = os_path_join (RESULTS_FOLDER cfg) (image_id @ ''_overlay.jpg'');
          mask_candidate_2 = os_path_join (RESULTS_FOLDER cfg) ''result.jpg'';
          mask_path = (if os_path_exists fs mask_candidate_1 then Some mask_candidate_1
                       else if os_path_exists fs mask_candidate_2 then Some mask_candidate_2
                       else None);
          input_img_flow = safe_image ext fs image_path;
          mask_img_flow = (case mask_path of None \<Rightarrow> None | Some p \<Rightarrow> safe_image ext fs p)
      in if input_img_flow \<noteq> None \<or> mask_img_flow \<noteq> None
         then [Paragraph ''Images'' ''Heading3'',
               Table [[case input_img_flow of
                         Some img \<Rightarrow> img
                       | None \<Rightarrow> Paragraph ''Input image unavailable'' ''BodyText'',
                       case mask_img_flow of
                         Some img \<Rightarrow> img
                       | None \<Rightarrow> Paragraph ''Mask image unavailable'' ''BodyText'']],
               Spacer 1 18]
         else [])"

definition report_elements ::
  "('b, 'x) externals \<Rightarrow> config \<Rightarrow> 'b filesystem \<Rightarrow> string \<Rightarrow> report_data \<Rightarrow> py_error + flowable list" where
  \<comment> \<open>lines 171 to 296: the list \<^verbatim>\<open>elements\<close>, in the order it is appended to\<close>
  "report_elements ext cfg fs image_path data =
     (let title_block =
            [Paragraph ''OCT Diagnostic Report'' ''Title'',
             Paragraph ''Generated using AI-assisted retinal imaging analysis'' ''Italic'',
             Spacer 1 12,
             Paragraph (''Scan ID: <b>'' @ data_image_id data @ ''</b>'') ''Normal'',
             Paragraph (''Generated: '' @ data_generated_at data) ''Normal'',
             Spacer 1 18];
          summary_block =
            [Paragraph ''Summary'' ''Heading3'',
             Paragraph (fst (report_texts ext data)) ''BodyText'',
             Spacer 1 6,
             Paragraph ''Recommendation'' ''Heading3'',
             Paragraph (snd (report_texts ext data)) ''BodyText'',
             Spacer 1 18];
          images = image_section ext cfg fs (data_image_id data) image_path
      in case pred_rows_loop ext (data_predictions data) [[Str ''Disease'', Str ''Probability'']] of
           Inl e \<Rightarrow> Inl e
         | Inr pred_rows \<Rightarrow>
             Inr (title_block @ summary_block @ images
                  @ [Paragraph ''Disease Probability Analysis'' ''Heading3'',
                     Table pred_rows,
                     Spacer 1 18,
                     Paragraph (''Retinal Layer Thickness ('' @ [CHR 0xC2, CHR 0xB5] @ ''m)'') ''Heading3'',
                     Table (th_rows ext (data_retinal_layer_thickness data)),
                     Spacer 1 24,
                     Paragraph (''This report is automatically generated and intended for clinical review assistance.''
                                  @ [CHR 0x0A] @ ''It should not be used as the sole basis for diagnosis.'')
                       ''BodyText'']))"

definition report_data_of :: "string \<Rightarrow> prediction_result \<Rightarrow> string \<Rightarrow> report_data" where
  \<comment> \<open>lines 143 to 158: the dictionary \<^verbatim>\<open>data\<close>, with its fixed thickness figures\<close>
  "report_data_of image_id result now =
     \<lparr>data_image_id = image_id,
      data_predictions = predictions result,
      data_top_disease = top_disease result,
      data_confidence = confidence result,
      data_generated_at = now,
      data_retinal_layer_thickness =
        [(''RNFL'', 76.4), (''GCL'', 31.9), (''IPL'', 21.7),
         (''OPL'', 19.4), (''INL'', 18.1), (''ONL'', 85.2)]\<rparr>"

definition generate_pdf_report ::
  "('b, 'x) externals \<Rightarrow> config \<Rightarrow> string \<Rightarrow> string \<Rightarrow> ('b, 'x) app_state
     \<Rightarrow> response \<times> ('b, 'x) app_state" where
  \<comment> \<open>the second string is the clock reading, \<^verbatim>\<open>datetime.now().strftime(...)\<close>\<close>
  "generate_pdf_report ext cfg image_id now st =
     (case find_image_path_by_id (disk st) image_id (UPLOAD_FOLDER cfg) of
        None \<Rightarrow> (Abort 404 ''Image not found.'', st)
      | Some image_path \<Rightarrow>
          (case predict_oct ext (disk st) (model_slot st) image_path (MODEL_PATH cfg)
                  (Some (CLASS_NAMES cfg)) of
             (Inl e, slot') \<Rightarrow> (Unhandled e, st\<lparr>model_slot := slot'\<rparr>)
           | (Inr result, slot') \<Rightarrow>
               (let data = report_data_of image_id result now;
                    pdf_path = os_path_join (REPORTS_FOLDER cfg) (image_id @ ''_report.pdf'');
                    footer_text = ''AI generated '' @ [CHR 0xE2, CHR 0x80, CHR 0xA2] @ '' '' @ now
                in case report_elements ext cfg (disk st) image_path data of
                     Inl e \<Rightarrow> (Unhandled e, st\<lparr>model_slot := slot'\<rparr>)
                   | Inr elements \<Rightarrow>
                       (case write_file (disk st) pdf_path (render_pdf ext elements footer_text) of
                          Inl e \<Rightarrow> (Unhandled e, st\<lparr>model_slot := slot'\<rparr>)
                        | Inr fs' \<Rightarrow>
                            (SendFile pdf_path (''report_'' @ image_id @ ''.pdf''),
                             st\<lparr>model_slot := slot', disk := fs'\<rparr>)))))"

subsection \<open>Reading a response\<close>

fun status_code :: "response \<Rightarrow> nat" where
  "status_code (Json body) = 200"
| "status_code (Abort code description) = code"
| "status_code (HttpError code) = code"
| "status_code (Unhandled e) = 500"
| "status_code (SendFile path download_name) = 200"

fun json_field :: "string \<Rightarrow> response \<Rightarrow> json option" where
  "json_field k (Json body) = map_of body k"
| "json_field k (Abort code description) = None"
| "json_field k (HttpError code) = None"
| "json_field k (Unhandled e) = None"
| "json_field k (SendFile path download_name) = None"

subsection \<open>Calls in sequence\<close>

text \<open>
  The results of successive calls of \<open>get_model\<close> in one process, each call with the
  loader of its moment (the model file may appear or vanish between calls) and its own
  path; the slot is handed from call to call.
\<close>

fun get_model_calls :: "((string \<Rightarrow> py_error + 'm) \<times> string) list \<Rightarrow> 'm option \<Rightarrow> (py_error + 'm) list" where
  "get_model_calls [] slot = []"
| "get_model_calls ((loader, model_path) # calls) slot =
     fst (get_model loader model_path slot)
       # get_model_calls calls (snd (get_model loader model_path slot))"

section \<open>A small installation\<close>

text \<open>
  A concrete configuration, disk and set of external functions, on which the theorems
  below are instantiated. File contents and tensors are numbers: content 100 is a model
  file for the eight configured classes, 102 one for two classes, and content 0 is not
  a readable image.
\<close>

definition example_net :: "nat \<Rightarrow> nat model" where
  "example_net b x =
     (if b = 102 then [0.9, 0.1]
      else if x = 5 then [0.02, 0.03, 0.05, 0.6, 0.1, 0.1, 0.05, 0.05]
      else [0.01, 0.01, 0.01, 0.01, 0.01, 0.01, 0.01, 0.93])"

definition example_externals :: "(nat, nat) externals" where
  "example_externals =
     \<lparr>keras_load_model = (\<lambda>b. if b = 100 \<or> b = 102 then Inr (example_net b) else Inl ModelLoadError),
      keras_load_img = (\<lambda>b. if b = 0 then Inl DecodeError else Inr b),
      secure_filename = filter (\<lambda>c. c \<noteq> CHR ''/''),
      format_fixed = (\<lambda>d v. ''#''),
      str_float = (\<lambda>v. ''#''),
      rl_image_ok = (\<lambda>b. b \<noteq> 0),
      render_pdf = (\<lambda>elements footer_text. 7)\<rparr>"

definition example_config :: config where
  "example_config = Config ''/srv/app'' []"

definition example_config_two :: config where
  \<comment> \<open>the same installation, reconfigured for the two-class model\<close>
  "example_config_two =
     example_config\<lparr>MODEL_PATH := ''/srv/app/two.h5'', CLASS_NAMES := [''WET'', ''DRY'']\<rparr>"

definition example_disk :: "nat filesystem" where
  "example_disk =
     [''/srv/app'' \<mapsto> [(''best_oct_classifier_ft.h5'', 100), (''two.h5'', 102)],
      ''/srv/app/uploads'' \<mapsto>
         [(''oct_00000002_notes.png'', 0), (''oct_00000001_scan.png'', 5),
          (''oct_00000001_again.png'', 6)],
      ''/srv/app/results'' \<mapsto> [],
      ''/srv/app/reports'' \<mapsto> []]"

definition example_state :: "(nat, nat) app_state" where
  "example_state = \<lparr>model_slot = None, disk = example_disk\<rparr>"

section \<open>Properties\<close>

lemma rsplit1_length: "sep \<in> set s \<Longrightarrow> length (rsplit1 sep s) = 2"
  by (simp add: rsplit1_def)

lemma rsplit1_decompose:
  assumes "sep \<in> set s"
  shows "s = rsplit1 sep s ! 0 @ [sep] @ rsplit1 sep s ! 1 \<and> sep \<notin> set (rsplit1 sep s ! 1)"
proof -
  let ?r = "rev s"
  let ?t = "takeWhile (\<lambda>c. c \<noteq> sep) ?r"
  let ?d = "dropWhile (\<lambda>c. c \<noteq> sep) ?r"
  have mem: "sep \<in> set ?r" using assms by simp
  have dne: "?d \<noteq> []" using mem by simp
  have hd: "hd ?d = sep" using hd_dropWhile [OF dne] by simp
  have d: "?d = sep # tl ?d" using dne hd by (cases ?d) auto
  have "?r = ?t @ ?d" by simp
  then have "?r = ?t @ sep # tl ?d" using d by simp
  then have "rev ?r = rev (?t @ sep # tl ?d)" by simp
  then have s: "s = rev (tl ?d) @ [sep] @ rev ?t" by simp
  have notin: "sep \<notin> set (rev ?t)" using set_takeWhileD by fastforce
  show ?thesis using s notin assms by (simp add: rsplit1_def)
qed

lemma rsplit1_unique:
  assumes "s = b @ [sep] @ e" and "sep \<notin> set e"
  shows "rsplit1 sep s = [b, e]"
proof -
  have r: "rev s = rev e @ sep # rev b" using assms by simp
  have t: "takeWhile (\<lambda>c. c \<noteq> sep) (rev s) = rev e"
    unfolding r using assms(2) by (subst takeWhile_append2) auto
  have d: "dropWhile (\<lambda>c. c \<noteq> sep) (rev s) = sep # rev b"
    unfolding r using assms(2) by (subst dropWhile_append2) auto
  have "sep \<in> set s" using assms by simp
  then show ?thesis by (simp add: rsplit1_def t d)
qed

subsection \<open>Allowed upload names\<close>

text \<open>
  C4. For every file name, \<open>is_allowed_file\<close> with the configured extensions is true
  exactly when the name contains a dot and the lower-cased text after the last dot is one
  of \<open>png\<close>, \<open>jpg\<close>, \<open>jpeg\<close>, \<open>dcm\<close>; a name without a dot is refused, whatever the
  set of extensions.
\<close>

theorem is_allowed_file_spec:
  "(is_allowed_file fname (ALLOWED_EXTENSIONS (Config base_dir url)) \<longleftrightarrow>
      (\<exists>stem ext. fname = stem @ ''.'' @ ext \<and> CHR ''.'' \<notin> set ext
          \<and> str_lower ext \<in> {''png'', ''jpg'', ''jpeg'', ''dcm''}))
   \<and> (CHR ''.'' \<notin> set fname \<longrightarrow> \<not> is_allowed_file fname allowed)"
proof -
  let ?A = "{''png'', ''jpg'', ''jpeg'', ''dcm''}"
  have cfg: "ALLOWED_EXTENSIONS (Config base_dir url) = ?A" by (simp add: Config_def)
  have fwd: "\<exists>stem ext. fname = stem @ ''.'' @ ext \<and> CHR ''.'' \<notin> set ext \<and> str_lower ext \<in> ?A"
    if a: "is_allowed_file fname ?A"
  proof -
    from a have dot: "CHR ''.'' \<in> set fname"
      by (auto simp: is_allowed_file_def split: if_splits)
    from a dot have low: "str_lower (rsplit1 CHR ''.'' fname ! 1) \<in> ?A"
      by (simp add: is_allowed_file_def Let_def)
    from rsplit1_decompose [OF dot] low show ?thesis by auto
  qed
  have bwd: "is_allowed_file fname ?A"
    if b: "fname = stem @ ''.'' @ ext" "CHR ''.'' \<notin> set ext" "str_lower ext \<in> ?A" for stem ext
  proof -
    have "rsplit1 CHR ''.'' fname = [stem, ext]"
      using rsplit1_unique [of fname stem "CHR ''.''" ext] b by simp
    moreover have "CHR ''.'' \<in> set fname" using b by simp
    ultimately show ?thesis using b(3) by (simp add: is_allowed_file_def Let_def)
  qed
  have nodot: "CHR ''.'' \<notin> set fname \<longrightarrow> \<not> is_allowed_file fname allowed"
    by (simp add: is_allowed_file_def)
  from fwd bwd nodot show ?thesis unfolding cfg by blast
qed

theorem is_allowed_file_spec_witness:
  "is_allowed_file ''scan.v2.PnG'' (ALLOWED_EXTENSIONS (Config ''/srv/app'' []))
   \<and> \<not> is_allowed_file ''README'' {''png''}"
proof -
  have "\<exists>stem ext. ''scan.v2.PnG'' = stem @ ''.'' @ ext \<and> CHR ''.'' \<notin> set ext
          \<and> str_lower ext \<in> {''png'', ''jpg'', ''jpeg'', ''dcm''}"
    by (rule exI [of _ "''scan.v2''"], rule exI [of _ "''PnG''"])
       (simp add: str_lower_def char_lower_def)
  then have a: "is_allowed_file ''scan.v2.PnG'' (ALLOWED_EXTENSIONS (Config ''/srv/app'' []))"
    using is_allowed_file_spec [of "''scan.v2.PnG''" "''/srv/app''" "[]"] by blast
  have c: "\<not> is_allowed_file ''README'' {''png''}"
    using is_allowed_file_spec [of "''README''" "''/srv/app''" "[]" "{''png''}"] by simp
  from a c show ?thesis by simp
qed

subsection \<open>Looking an upload up by its id\<close>

lemma scan_names_None: "scan_names pre d names = None \<longleftrightarrow> (\<forall>n\<in>set names. \<not> startswith n pre)"
  by (induction names) auto

lemma scan_names_Some:
  "scan_names pre d names = Some p \<Longrightarrow>
     \<exists>before name after. names = before @ name # after \<and> (\<forall>n\<in>set before. \<not> startswith n pre)
        \<and> startswith name pre \<and> p = os_path_join d name"
proof (induction names)
  case Nil
  then show ?case by simp
next
  case (Cons n names)
  show ?case
  proof (cases "startswith n pre")
    case True
    with Cons.prems have "p = os_path_join d n" by simp
    with True show ?thesis by (intro exI [of _ "[]"] exI [of _ n] exI [of _ names]) simp
  next
    case False
    with Cons.prems have "scan_names pre d names = Some p" by simp
    from Cons.IH [OF this] obtain before name after where
      h: "names = before @ name # after" "\<forall>n\<in>set before. \<not> startswith n pre"
         "startswith name pre" "p = os_path_join d name" by blast
    with False show ?thesis
      by (intro exI [of _ "n # before"] exI [of _ name] exI [of _ after]) simp
  qed
qed

lemma basename_join:
  assumes "CHR ''/'' \<notin> set name"
  shows "os_path_basename (os_path_join d name) = name"
proof -
  have ns: "\<not> startswith name ''/''" using assms by (cases name) (auto simp: startswith_def)
  have tw: "takeWhile (\<lambda>c. c \<noteq> CHR ''/'') (rev name @ CHR ''/'' # zs) = rev name" for zs
    using assms by (subst takeWhile_append2) auto
  show ?thesis
  proof (cases "d = []")
    case True
    have tw0: "takeWhile (\<lambda>c. c \<noteq> CHR ''/'') (rev name) = rev name"
      using assms by (auto simp: takeWhile_eq_all_conv)
    show ?thesis using True ns by (simp add: os_path_join_def os_path_basename_def tw0)
  next
    case False
    then obtain ys y where d: "d = ys @ [y]" by (metis rev_exhaust)
    show ?thesis
    proof (cases "y = CHR ''/''")
      case True
      then show ?thesis using ns d tw [of "rev ys"]
        by (simp add: os_path_join_def os_path_basename_def)
    next
      case False
      then show ?thesis using ns d tw [of "y # rev ys"]
        by (simp add: os_path_join_def os_path_basename_def)
    qed
  qed
qed

lemma startswith_build_saved_filename:
  "startswith (build_saved_filename sec X orig) (X @ ''_'')"
  by (simp add: startswith_def build_saved_filename_def)

text \<open>
  C3. If a file named \<open>build_saved_filename X original\<close> is listed in the upload
  directory (whose entries, being file names, contain no slash), then
  \<open>find_image_path_by_id X\<close> returns a path, the path is the directory joined with the
  first listed name that starts with \<open>X_\<close>, and that name is the path's base name.
\<close>

theorem find_image_path_by_id_roundtrip:
  assumes present: "build_saved_filename sec X original \<in> set (os_listdir fs upload_dir)"
      and names: "\<forall>n\<in>set (os_listdir fs upload_dir). CHR ''/'' \<notin> set n"
  shows "\<exists>before name after.
           os_listdir fs upload_dir = before @ name # after
         \<and> (\<forall>n\<in>set before. \<not> startswith n (X @ ''_''))
         \<and> startswith name (X @ ''_'')
         \<and> find_image_path_by_id fs X upload_dir = Some (os_path_join upload_dir name)
         \<and> os_path_basename (os_path_join upload_dir name) = name"
proof -
  let ?names = "os_listdir fs upload_dir"
  from present have isdir: "os_path_isdir fs upload_dir"
    by (cases "fs upload_dir") (auto simp: os_listdir_def os_path_isdir_def)
  have "scan_names (X @ ''_'') upload_dir ?names \<noteq> None"
    using present startswith_build_saved_filename [of sec X original]
    by (auto simp: scan_names_None)
  then obtain p where p: "scan_names (X @ ''_'') upload_dir ?names = Some p" by blast
  from scan_names_Some [OF p] obtain before name after where
    h: "?names = before @ name # after" "\<forall>n\<in>set before. \<not> startswith n (X @ ''_'')"
       "startswith name (X @ ''_'')" "p = os_path_join upload_dir name" by blast
  have "name \<in> set ?names" using h(1) by simp
  with names have "CHR ''/'' \<notin> set name" by blast
  then have b: "os_path_basename (os_path_join upload_dir name) = name" by (rule basename_join)
  have f: "find_image_path_by_id fs X upload_dir = Some (os_path_join upload_dir name)"
    using isdir p h(4) by (simp add: find_image_path_by_id_def)
  from h(1,2,3) f b show ?thesis by blast
qed

theorem find_image_path_by_id_roundtrip_witness:
  "build_saved_filename (secure_filename example_externals) ''oct_00000001'' ''again.png''
     \<in> set (os_listdir example_disk ''/srv/app/uploads'')
   \<and> find_image_path_by_id example_disk ''oct_00000001'' ''/srv/app/uploads''
       = Some ''/srv/app/uploads/oct_00000001_scan.png''
   \<and> os_path_basename ''/srv/app/uploads/oct_00000001_scan.png'' = ''oct_00000001_scan.png''"
proof -
  have ls: "os_listdir example_disk ''/srv/app/uploads''
              = [''oct_00000002_notes.png'', ''oct_00000001_scan.png'', ''oct_00000001_again.png'']"
    by (simp add: os_listdir_def example_disk_def)
  have h1: "build_saved_filename (secure_filename example_externals) ''oct_00000001'' ''again.png''
              \<in> set (os_listdir example_disk ''/srv/app/uploads'')"
    unfolding ls by (simp add: build_saved_filename_def example_externals_def)
  have h2: "\<forall>n\<in>set (os_listdir example_disk ''/srv/app/uploads''). CHR ''/'' \<notin> set n"
    unfolding ls by simp
  from find_image_path_by_id_roundtrip [OF h1 h2] obtain before name after where
    r: "os_listdir example_disk ''/srv/app/uploads'' = before @ name # after"
       "\<forall>n\<in>set before. \<not> startswith n (''oct_00000001'' @ ''_'')"
       "startswith name (''oct_00000001'' @ ''_'')"
       "find_image_path_by_id example_disk ''oct_00000001'' ''/srv/app/uploads''
          = Some (os_path_join ''/srv/app/uploads'' name)"
       "os_path_basename (os_path_join ''/srv/app/uploads'' name) = name"
    by blast
  have "find_image_path_by_id example_disk ''oct_00000001'' ''/srv/app/uploads''
          = Some ''/srv/app/uploads/oct_00000001_scan.png''"
    by (simp add: find_image_path_by_id_def os_path_isdir_def ls startswith_def os_path_join_def)
       (simp add: example_disk_def)
  with r(4) have j: "os_path_join ''/srv/app/uploads'' name = ''/srv/app/uploads/oct_00000001_scan.png''"
    by simp
  then have "name = ''oct_00000001_scan.png''"
    using r(5) by (simp add: os_path_basename_def)
  with h1 r(4,5) j show ?thesis by simp
qed

subsection \<open>The model cache\<close>

lemma get_model_calls_cached:
  "get_model_calls calls (Some m) = replicate (length calls) (Inr m)"
  by (induction calls) (auto simp: get_model_def)

lemma example_model_file:
  "load_model example_externals example_disk (MODEL_PATH example_config) = Inr (example_net 100)"
  by (simp add: load_model_def read_file_def os_path_split_def rstrip_def example_config_def
      Config_def os_path_join_def startswith_def example_disk_def example_externals_def)

lemma example_no_model_file:
  "load_model example_externals Map.empty (MODEL_PATH example_config) = Inl FileNotFoundError"
  by (simp add: load_model_def read_file_def)

text \<open>
  C5, as the code has it. In any sequence of calls that starts with an empty slot: when
  the first load succeeds, that call and every later one return the loaded model,
  whatever path and loader the later calls are given (nothing is loaded again); when the
  first load fails, the slot stays empty, so the calls that follow behave as in a fresh
  process and load again.
\<close>

theorem get_model_loads_once_and_retries_after_failure:
  "(loader model_path = Inr m \<longrightarrow>
      get_model_calls ((loader, model_path) # calls) None = Inr m # replicate (length calls) (Inr m))
   \<and> (loader model_path = Inl e \<longrightarrow>
      get_model loader model_path None = (Inl e, None)
      \<and> get_model_calls ((loader, model_path) # calls) None = Inl e # get_model_calls calls None)"
  by (simp add: get_model_def get_model_calls_cached)

theorem get_model_loads_once_and_retries_after_failure_witness:
  "load_model example_externals example_disk (MODEL_PATH example_config) = Inr (example_net 100)
   \<and> get_model_calls
        [(load_model example_externals example_disk, MODEL_PATH example_config),
         (load_model example_externals Map.empty, ''other.h5'')] None
       = [Inr (example_net 100), Inr (example_net 100)]
   \<and> load_model example_externals Map.empty (MODEL_PATH example_config) = Inl FileNotFoundError
   \<and> get_model_calls
        [(load_model example_externals Map.empty, MODEL_PATH example_config),
         (load_model example_externals example_disk, MODEL_PATH example_config)] None
       = Inl FileNotFoundError
           # get_model_calls [(load_model example_externals example_disk, MODEL_PATH example_config)] None"
  using get_model_loads_once_and_retries_after_failure
          [of "load_model example_externals example_disk" "MODEL_PATH example_config" "example_net 100"
              "[(load_model example_externals Map.empty, ''other.h5'')]"]
        get_model_loads_once_and_retries_after_failure
          [of "load_model example_externals Map.empty" "MODEL_PATH example_config" _
              "[(load_model example_externals example_disk, MODEL_PATH example_config)]" FileNotFoundError]
        example_model_file example_no_model_file
  by simp

text \<open>
  The claim as written (a failed first load poisons the cache, the next call does not
  load) fails: the model file is missing at the first call and present at the second,
  and the second call returns the model.
\<close>

theorem get_model_poisoned_counterexample:
  "get_model_calls
     [(load_model example_externals Map.empty, MODEL_PATH example_config),
      (load_model example_externals example_disk, MODEL_PATH example_config)] None
   = [Inl FileNotFoundError, Inr (example_net 100)]"
  by (simp add: get_model_def example_model_file example_no_model_file)

subsection \<open>The mask endpoint\<close>

text \<open>
  C10. For every id, request, configuration and state, \<open>GET /mask/<id>\<close> answers 200 and
  leaves the state alone; the body carries the id, the six fixed layer thicknesses, the
  fixed note, and an overlay URL that is the base URL without trailing slashes followed
  by \<open>/results/result.jpg\<close>. Nothing in it depends on the stored files.
\<close>

theorem mask_fixed_payload:
  "status_code (fst (mask_route cfg req image_id st)) = 200
   \<and> snd (mask_route cfg req image_id st) = st
   \<and> json_field ''image_id'' (fst (mask_route cfg req image_id st)) = Some (JStr image_id)
   \<and> json_field ''overlay_mask_url'' (fst (mask_route cfg req image_id st))
       = Some (JStr (rstrip CHR ''/'' (if SERVER_BASE_URL cfg \<noteq> [] then SERVER_BASE_URL cfg
                                       else host_url req) @ ''/results/result.jpg''))
   \<and> json_field ''retinal_layer_thickness'' (fst (mask_route cfg req image_id st))
       = Some (JObj [(''rnfl'', JNum 76.4), (''gcl'', JNum 31.9), (''ipl'', JNum 21.7),
                     (''opl'', JNum 19.4), (''inl'', JNum 18.1), (''onl'', JNum 85.2)])
   \<and> json_field ''notes'' (fst (mask_route cfg req image_id st))
       = Some (JStr ''RNFL thinning detected, consistent with glaucoma risk.'')"
  by (simp add: mask_route_def Let_def)

theorem mask_fixed_payload_witness:
  "find_image_path_by_id example_disk ''no_such_id'' (UPLOAD_FOLDER example_config) = None
   \<and> status_code (fst (mask_route example_config \<lparr>content_length = 0, files = Map.empty, host_url = ''http://localhost:5000/''\<rparr>
                         ''no_such_id'' example_state)) = 200
   \<and> json_field ''overlay_mask_url''
        (fst (mask_route example_config \<lparr>content_length = 0, files = Map.empty, host_url = ''http://localhost:5000/''\<rparr>
                ''no_such_id'' example_state))
       = Some (JStr ''http://localhost:5000/results/result.jpg'')"
proof -
  have a: "find_image_path_by_id example_disk ''no_such_id'' (UPLOAD_FOLDER example_config) = None"
    by (simp add: find_image_path_by_id_def os_path_isdir_def os_listdir_def example_config_def
        Config_def os_path_join_def startswith_def example_disk_def)
  have b: "rstrip CHR ''/'' ''http://localhost:5000/'' = ''http://localhost:5000''"
    by (simp add: rstrip_def)
  have c: "SERVER_BASE_URL example_config = []" by (simp add: example_config_def Config_def)
  show ?thesis
    using mask_fixed_payload [of example_config "\<lparr>content_length = 0, files = Map.empty, host_url = ''http://localhost:5000/''\<rparr>"
                                 "''no_such_id''" example_state] a b c
    by simp
qed

subsection \<open>The classification step\<close>

lemma argmax_loop_spec:
  assumes "length pre = i" "best < i" "pre ! best = bv"
      and "\<forall>j<i. pre ! j \<le> bv" "\<forall>j<best. pre ! j < bv"
  shows "argmax_loop ps i best bv < i + length ps
       \<and> (\<forall>j < i + length ps. (pre @ ps) ! j \<le> (pre @ ps) ! argmax_loop ps i best bv)
       \<and> (\<forall>j < argmax_loop ps i best bv. (pre @ ps) ! j < (pre @ ps) ! argmax_loop ps i best bv)"
  using assms
proof (induction ps arbitrary: pre i best bv)
  case Nil
  then show ?case by auto
next
  case (Cons p ps)
  show ?case
  proof (cases "bv < p")
    case True
    have "argmax_loop ps (Suc i) i p < Suc i + length ps
       \<and> (\<forall>j < Suc i + length ps. ((pre @ [p]) @ ps) ! j \<le> ((pre @ [p]) @ ps) ! argmax_loop ps (Suc i) i p)
       \<and> (\<forall>j < argmax_loop ps (Suc i) i p. ((pre @ [p]) @ ps) ! j < ((pre @ [p]) @ ps) ! argmax_loop ps (Suc i) i p)"
    proof (rule Cons.IH)
      show "length (pre @ [p]) = Suc i" using Cons.prems(1) by simp
      show "i < Suc i" by simp
      show "(pre @ [p]) ! i = p" using Cons.prems(1) by (simp add: nth_append)
      show "\<forall>j<Suc i. (pre @ [p]) ! j \<le> p"
        using Cons.prems(1,4) True by (auto simp: nth_append less_Suc_eq)
      show "\<forall>j<i. (pre @ [p]) ! j < p"
        using Cons.prems(1,4) True by (auto simp: nth_append)
    qed
    with True show ?thesis by simp
  next
    case False
    have "argmax_loop ps (Suc i) best bv < Suc i + length ps
       \<and> (\<forall>j < Suc i + length ps. ((pre @ [p]) @ ps) ! j \<le> ((pre @ [p]) @ ps) ! argmax_loop ps (Suc i) best bv)
       \<and> (\<forall>j < argmax_loop ps (Suc i) best bv. ((pre @ [p]) @ ps) ! j < ((pre @ [p]) @ ps) ! argmax_loop ps (Suc i) best bv)"
    proof (rule Cons.IH)
      show "length (pre @ [p]) = Suc i" using Cons.prems(1) by simp
      show "best < Suc i" using Cons.prems(2) by simp
      show "(pre @ [p]) ! best = bv" using Cons.prems(1,2,3) by (simp add: nth_append)
      show "\<forall>j<Suc i. (pre @ [p]) ! j \<le> bv"
        using Cons.prems(1,4) False by (auto simp: nth_append less_Suc_eq)
      show "\<forall>j<best. (pre @ [p]) ! j < bv"
        using Cons.prems(1,2,5) by (auto simp: nth_append)
    qed
    with False show ?thesis by simp
  qed
qed

lemma np_argmax_spec:
  assumes "probs \<noteq> []"
  shows "\<exists>i. np_argmax probs = Inr i \<and> i < length probs
           \<and> (\<forall>j<length probs. probs ! j \<le> probs ! i) \<and> (\<forall>j<i. probs ! j < probs ! i)"
proof -
  from assms obtain p ps where probs: "probs = p # ps" by (cases probs) auto
  have "argmax_loop ps 1 0 p < 1 + length ps
       \<and> (\<forall>j < 1 + length ps. ([p] @ ps) ! j \<le> ([p] @ ps) ! argmax_loop ps 1 0 p)
       \<and> (\<forall>j < argmax_loop ps 1 0 p. ([p] @ ps) ! j < ([p] @ ps) ! argmax_loop ps 1 0 p)"
    by (rule argmax_loop_spec) auto
  then show ?thesis unfolding probs by (simp add: np_argmax_def)
qed

lemma update_fresh: "k \<notin> fst ` set al \<Longrightarrow> AList.update k v al = al @ [(k, v)]"
  by (induction al) auto

lemma dict_comprehension_keys:
  "dict_comprehension class_names probs idx d = Inr d' \<Longrightarrow>
     fst ` set d' \<subseteq> fst ` set d \<union> set class_names"
proof (induction idx arbitrary: d)
  case Nil
  then show ?case by auto
next
  case (Cons i idx)
  from Cons.prems obtain k v where
    k: "list_index class_names i = Inr k" and v: "list_index probs i = Inr v"
    and rest: "dict_comprehension class_names probs idx (AList.update k v d) = Inr d'"
    by (auto split: sum.splits)
  from k have "k \<in> set class_names"
    by (metis Inl_Inr_False list_index_def nth_mem sum.inject(2))
  with Cons.IH [OF rest] show ?case by (auto simp: dom_update)
qed

lemma dict_comprehension_distinct:
  assumes "distinct class_names" "n \<le> length class_names" "n \<le> length probs"
  shows "dict_comprehension class_names probs [m..<n] (zip (take m class_names) (take m probs))
         = Inr (zip (take n class_names) (take n probs)) \<or> n < m"
  using assms
proof (induction "n - m" arbitrary: m)
  case 0
  then show ?case by (cases "n < m") auto
next
  case (Suc d)
  then have mn: "m < n" by simp
  then have upt: "[m..<n] = m # [Suc m..<n]" by (simp add: upt_conv_Cons)
  have mc: "m < length class_names" and mp: "m < length probs" using mn Suc.prems by auto
  have fresh: "class_names ! m \<notin> fst ` set (zip (take m class_names) (take m probs))"
  proof
    assume "class_names ! m \<in> fst ` set (zip (take m class_names) (take m probs))"
    then have "class_names ! m \<in> set (take m class_names)" by (auto dest: set_zip_leftD)
    then obtain j where "j < m" "class_names ! j = class_names ! m"
      using mc by (auto simp: in_set_conv_nth)
    with Suc.prems(1) mc show False by (auto simp: nth_eq_iff_index_eq)
  qed
  have step: "AList.update (class_names ! m) (probs ! m) (zip (take m class_names) (take m probs))
              = zip (take (Suc m) class_names) (take (Suc m) probs)"
    using mc mp by (simp add: update_fresh [OF fresh] take_Suc_conv_app_nth)
  have "d = n - Suc m" using Suc.hyps(2) by simp
  from Suc.hyps(1) [OF this Suc.prems] mn
  have "dict_comprehension class_names probs [Suc m..<n]
          (zip (take (Suc m) class_names) (take (Suc m) probs))
        = Inr (zip (take n class_names) (take n probs))" by auto
  then show ?case using mc mp by (simp add: upt list_index_def step)
qed

lemma classify_distinct:
  assumes "distinct class_names" "length probs = length class_names" "class_names \<noteq> []"
  shows "\<exists>i. i < length class_names
           \<and> (\<forall>j<length probs. probs ! j \<le> probs ! i) \<and> (\<forall>j<i. probs ! j < probs ! i)
           \<and> classify class_names probs
               = Inr \<lparr>predictions = zip class_names probs, top_disease = class_names ! i,
                      confidence = probs ! i\<rparr>"
proof -
  have ne: "probs \<noteq> []" using assms(2,3) by auto
  from np_argmax_spec [OF ne] obtain i where
    i: "np_argmax probs = Inr i" "i < length probs"
       "\<forall>j<length probs. probs ! j \<le> probs ! i" "\<forall>j<i. probs ! j < probs ! i" by blast
  have "dict_comprehension class_names probs [0..<length class_names]
          (zip (take 0 class_names) (take 0 probs))
        = Inr (zip (take (length class_names) class_names) (take (length class_names) probs))
        \<or> length class_names < 0"
    by (rule dict_comprehension_distinct) (use assms in auto)
  then have d: "dict_comprehension class_names probs [0..<length class_names] []
                = Inr (zip class_names probs)" using assms(2) by simp
  show ?thesis using i d assms(2) by (auto simp: classify_def list_index_def)
qed

lemma classify_labels:
  assumes "classify class_names probs = Inr r"
  shows "top_disease r \<in> set class_names \<and> fst ` set (predictions r) \<subseteq> set class_names"
proof -
  from assms obtain i preds where
    d: "dict_comprehension class_names probs [0..<length class_names] [] = Inr preds"
    and t: "list_index class_names i = Inr (top_disease r)" and p: "predictions r = preds"
    by (auto simp: classify_def split: sum.splits)
  from t have "top_disease r \<in> set class_names"
    by (metis Inl_Inr_False list_index_def nth_mem sum.inject(2))
  moreover from dict_comprehension_keys [OF d] p have "fst ` set (predictions r) \<subseteq> set class_names"
    by simp
  ultimately show ?thesis by simp
qed

subsection \<open>The result of \<open>predict_oct\<close>\<close>

lemma example_image:
  "load_img example_externals example_disk ''/srv/app/uploads/oct_00000001_scan.png'' = Inr 5"
  by (simp add: load_img_def read_file_def os_path_split_def rstrip_def example_disk_def
      example_externals_def)

lemma example_two_class_model:
  "load_model example_externals example_disk ''/srv/app/two.h5'' = Inr (example_net 102)"
  by (simp add: load_model_def read_file_def os_path_split_def rstrip_def example_disk_def
      example_externals_def)

text \<open>
  C1, as the code has it. Let the class-name list (the default list when none is given)
  be non-empty with distinct labels, let the model load and the image decode, and let
  the model's output vector have as many entries as the list, each in \<open>[0, 1]\<close>. Then
  \<open>predict_oct\<close> returns; \<open>predictions\<close> pairs the labels with the output vector
  position by position, so it has as many entries as the list (8 for the default list)
  and each probability is in \<open>[0, 1]\<close>; \<open>top_disease\<close> is the label at the first
  position of the largest output, \<open>confidence\<close> is that output, and
  \<open>predictions[top_disease]\<close> is \<open>confidence\<close>.
\<close>

theorem predict_oct_result:
  assumes model: "fst (get_model (load_model ext fs) model_path slot) = Inr net"
      and image: "load_img ext fs image_path = Inr x"
      and names: "class_names = (case class_names_arg of None \<Rightarrow> DEFAULT_CLASS_NAMES | Some c \<Rightarrow> c)"
      and dist: "distinct class_names" and ne: "class_names \<noteq> []"
      and len: "length (net x) = length class_names"
      and unit: "\<forall>p\<in>set (net x). 0 \<le> p \<and> p \<le> 1"
  shows "\<exists>result i.
           fst (predict_oct ext fs slot image_path model_path class_names_arg) = Inr result
         \<and> predictions result = zip class_names (net x)
         \<and> length (predictions result) = length class_names
         \<and> (class_names_arg = None \<longrightarrow> length (predictions result) = 8)
         \<and> (\<forall>(label, p)\<in>set (predictions result). 0 \<le> p \<and> p \<le> 1)
         \<and> i < length class_names
         \<and> (\<forall>j<length (net x). net x ! j \<le> net x ! i) \<and> (\<forall>j<i. net x ! j < net x ! i)
         \<and> top_disease result = class_names ! i
         \<and> confidence result = net x ! i
         \<and> map_of (predictions result) (top_disease result) = Some (confidence result)"
proof -
  from classify_distinct [OF dist len ne] obtain i where
    i: "i < length class_names" "\<forall>j<length (net x). net x ! j \<le> net x ! i"
       "\<forall>j<i. net x ! j < net x ! i"
    and c: "classify class_names (net x)
              = Inr \<lparr>predictions = zip class_names (net x), top_disease = class_names ! i,
                     confidence = net x ! i\<rparr>" by blast
  let ?r = "\<lparr>predictions = zip class_names (net x), top_disease = class_names ! i,
             confidence = net x ! i\<rparr>"
  obtain slot' where g: "get_model (load_model ext fs) model_path slot = (Inr net, slot')"
    using model by (cases "get_model (load_model ext fs) model_path slot") auto
  have run: "fst (predict_oct ext fs slot image_path model_path class_names_arg) = Inr ?r"
    using g image c names by (simp add: predict_oct_def)
  have l: "length (predictions ?r) = length class_names" using len by simp
  have eight: "class_names_arg = None \<longrightarrow> length (predictions ?r) = 8"
    using names len by (auto simp: DEFAULT_CLASS_NAMES_def)
  have rng: "\<forall>(label, p)\<in>set (predictions ?r). 0 \<le> p \<and> p \<le> 1"
    using unit by (auto dest: set_zip_rightD)
  have look: "map_of (predictions ?r) (top_disease ?r) = Some (confidence ?r)"
    using map_of_zip_nth [of class_names "net x" i] len dist i(1) by simp
  show ?thesis
    using run l eight rng look i len
    by (intro exI [of _ ?r] exI [of _ i]) simp
qed

theorem predict_oct_result_witness:
  "fst (predict_oct example_externals example_disk None ''/srv/app/uploads/oct_00000001_scan.png''
          (MODEL_PATH example_config) None)
   = Inr \<lparr>predictions = [(''AMD'', 0.02), (''CNV'', 0.03), (''CSR'', 0.05), (''DME'', 0.6),
                          (''DR'', 0.1), (''DRUSEN'', 0.1), (''MH'', 0.05), (''NORMAL'', 0.05)],
          top_disease = ''DME'', confidence = 0.6\<rparr>"
proof -
  have m: "fst (get_model (load_model example_externals example_disk) (MODEL_PATH example_config) None)
             = Inr (example_net 100)"
    by (simp add: get_model_def example_model_file)
  have n: "DEFAULT_CLASS_NAMES = (case None of None \<Rightarrow> DEFAULT_CLASS_NAMES | Some c \<Rightarrow> c)" by simp
  have out: "example_net 100 5 = [0.02, 0.03, 0.05, 0.6, 0.1, 0.1, 0.05, 0.05]"
    by (simp add: example_net_def)
  have d: "distinct DEFAULT_CLASS_NAMES" and e: "DEFAULT_CLASS_NAMES \<noteq> []"
    by (simp_all add: DEFAULT_CLASS_NAMES_def)
  have l: "length (example_net 100 5) = length DEFAULT_CLASS_NAMES"
    by (simp add: out DEFAULT_CLASS_NAMES_def)
  have u: "\<forall>p\<in>set (example_net 100 5). 0 \<le> p \<and> p \<le> 1" by (simp add: out)
  from predict_oct_result [OF m example_image n d e l u] obtain result i where
    r: "fst (predict_oct example_externals example_disk None ''/srv/app/uploads/oct_00000001_scan.png''
              (MODEL_PATH example_config) None) = Inr result"
       "predictions result = zip DEFAULT_CLASS_NAMES (example_net 100 5)"
       "i < length DEFAULT_CLASS_NAMES"
       "\<forall>j<length (example_net 100 5). example_net 100 5 ! j \<le> example_net 100 5 ! i"
       "top_disease result = DEFAULT_CLASS_NAMES ! i"
       "confidence result = example_net 100 5 ! i"
    by auto
  have "3 < length (example_net 100 5)" by (simp add: out)
  with r(4) have top: "example_net 100 5 ! 3 \<le> example_net 100 5 ! i" by blast
  have "i \<in> {0, 1, 2, 3, 4, 5, 6, 7}" using r(3) by (auto simp: DEFAULT_CLASS_NAMES_def)
  with top have "i = 3" by (auto simp: out)
  with r(1,2,5,6) show ?thesis by (cases result) (simp add: out DEFAULT_CLASS_NAMES_def)
qed

text \<open>
  For every class-name list the claim fails: with the list \<open>[A, A]\<close> and the output
  \<open>[0.9, 0.1]\<close> the dictionary keeps one entry, the last value written under \<open>A\<close>,
  so it has one entry for two names and \<open>predictions[top_disease]\<close> is 0.1 while
  \<open>confidence\<close> is 0.9.
\<close>

theorem predict_oct_duplicate_labels_counterexample:
  "fst (predict_oct example_externals example_disk None ''/srv/app/uploads/oct_00000001_scan.png''
          ''/srv/app/two.h5'' (Some [''A'', ''A'']))
     = Inr \<lparr>predictions = [(''A'', 0.1)], top_disease = ''A'', confidence = 0.9\<rparr>
   \<and> length [(''A'', 0.1 :: real)] \<noteq> length [''A'', ''A'']
   \<and> map_of [(''A'', 0.1 :: real)] ''A'' \<noteq> Some 0.9"
  by (simp add: predict_oct_def get_model_def example_two_class_model example_image
      example_net_def classify_def np_argmax_def list_index_def)

subsection \<open>The small installation, evaluated\<close>

lemma example_upload_folder: "UPLOAD_FOLDER example_config = ''/srv/app/uploads''"
  by (simp add: example_config_def Config_def os_path_join_def startswith_def)

lemma example_uploads:
  "os_listdir example_disk ''/srv/app/uploads''
     = [''oct_00000002_notes.png'', ''oct_00000001_scan.png'', ''oct_00000001_again.png'']"
  by (simp add: os_listdir_def example_disk_def)

lemma example_isdir: "os_path_isdir example_disk ''/srv/app/uploads''"
  by (simp add: os_path_isdir_def example_disk_def)

lemma example_find_scan:
  "find_image_path_by_id example_disk ''oct_00000001'' ''/srv/app/uploads''
     = Some ''/srv/app/uploads/oct_00000001_scan.png''"
  by (simp add: find_image_path_by_id_def example_isdir example_uploads startswith_def
      os_path_join_def)

lemma example_find_notes:
  "find_image_path_by_id example_disk ''oct_00000002'' ''/srv/app/uploads''
     = Some ''/srv/app/uploads/oct_00000002_notes.png''"
  by (simp add: find_image_path_by_id_def example_isdir example_uploads startswith_def
      os_path_join_def)

lemma example_find_nothing:
  "find_image_path_by_id example_disk ''nonexistent_id'' ''/srv/app/uploads'' = None"
  by (simp add: find_image_path_by_id_def example_isdir example_uploads startswith_def)

lemma example_bad_image:
  "load_img example_externals example_disk ''/srv/app/uploads/oct_00000002_notes.png''
     = Inl DecodeError"
  by (simp add: load_img_def read_file_def os_path_split_def rstrip_def example_disk_def
      example_externals_def)

lemma example_class_names: "CLASS_NAMES example_config = DEFAULT_CLASS_NAMES"
  by (simp add: example_config_def Config_def DEFAULT_CLASS_NAMES_def)

lemma example_classify:
  "classify DEFAULT_CLASS_NAMES (example_net 100 5)
     = Inr \<lparr>predictions = [(''AMD'', 0.02), (''CNV'', 0.03), (''CSR'', 0.05), (''DME'', 0.6),
                            (''DR'', 0.1), (''DRUSEN'', 0.1), (''MH'', 0.05), (''NORMAL'', 0.05)],
            top_disease = ''DME'', confidence = 0.6\<rparr>"
  by (simp add: classify_def np_argmax_def list_index_def example_net_def DEFAULT_CLASS_NAMES_def)

lemma example_inference:
  "predict_oct example_externals example_disk None ''/srv/app/uploads/oct_00000001_scan.png''
     (MODEL_PATH example_config) (Some (CLASS_NAMES example_config))
   = (Inr \<lparr>predictions = [(''AMD'', 0.02), (''CNV'', 0.03), (''CSR'', 0.05), (''DME'', 0.6),
                            (''DR'', 0.1), (''DRUSEN'', 0.1), (''MH'', 0.05), (''NORMAL'', 0.05)],
            top_disease = ''DME'', confidence = 0.6\<rparr>, Some (example_net 100))"
  by (simp add: predict_oct_def get_model_def example_model_file example_image example_class_names
      example_classify)

lemma example_inference_fails:
  "predict_oct example_externals example_disk None ''/srv/app/uploads/oct_00000002_notes.png''
     (MODEL_PATH example_config) (Some (CLASS_NAMES example_config))
   = (Inl DecodeError, Some (example_net 100))"
  by (simp add: predict_oct_def get_model_def example_model_file example_bad_image)

subsection \<open>The predict endpoint\<close>

text \<open>
  C2, as the code has it. \<open>GET /predict/<id>\<close> answers 404 exactly when
  \<open>find_image_path_by_id\<close> finds no file for the id; in particular an id that no name in
  the upload directory starts with gives 404 and leaves the state alone. When a file is
  found, inference runs on it: if inference returns, the answer is the JSON body with the
  predictions, the top disease, the confidence and the derived summary and
  recommendation; if inference raises, the exception escapes the handler (a 500).
\<close>

theorem predict_responses:
  "(status_code (fst (predict ext cfg image_id st)) = 404
      \<longleftrightarrow> find_image_path_by_id (disk st) image_id (UPLOAD_FOLDER cfg) = None)
   \<and> ((\<forall>name\<in>set (os_listdir (disk st) (UPLOAD_FOLDER cfg)). \<not> startswith name (image_id @ ''_''))
        \<longrightarrow> predict ext cfg image_id st = (Abort 404 ''Image not found.'', st))
   \<and> (find_image_path_by_id (disk st) image_id (UPLOAD_FOLDER cfg) = Some image_path
        \<and> predict_oct ext (disk st) (model_slot st) image_path (MODEL_PATH cfg)
             (Some (CLASS_NAMES cfg)) = (Inr result, slot')
        \<longrightarrow> predict ext cfg image_id st
             = (Json [(''image_id'', JStr image_id),
                      (''predictions'', predictions_json (predictions result)),
                      (''top_disease'', JStr (top_disease result)),
                      (''confidence'', JNum (confidence result)),
                      (''summary'', JStr (fst (predict_texts ext result))),
                      (''recommendation'', JStr (snd (predict_texts ext result)))],
                st\<lparr>model_slot := slot'\<rparr>))
   \<and> (find_image_path_by_id (disk st) image_id (UPLOAD_FOLDER cfg) = Some image_path
        \<and> predict_oct ext (disk st) (model_slot st) image_path (MODEL_PATH cfg)
             (Some (CLASS_NAMES cfg)) = (Inl e, slot')
        \<longrightarrow> predict ext cfg image_id st = (Unhandled e, st\<lparr>model_slot := slot'\<rparr>))"
proof -
  have a: "status_code (fst (predict ext cfg image_id st)) = 404
      \<longleftrightarrow> find_image_path_by_id (disk st) image_id (UPLOAD_FOLDER cfg) = None"
    by (auto simp: predict_def split: option.splits prod.splits sum.splits)
  have b: "(\<forall>name\<in>set (os_listdir (disk st) (UPLOAD_FOLDER cfg)). \<not> startswith name (image_id @ ''_''))
        \<longrightarrow> predict ext cfg image_id st = (Abort 404 ''Image not found.'', st)"
    by (simp add: predict_def find_image_path_by_id_def scan_names_None [THEN iffD2])
  show ?thesis using a b by (simp add: predict_def)
qed

theorem predict_responses_witness:
  "predict example_externals example_config ''nonexistent_id'' example_state
     = (Abort 404 ''Image not found.'', example_state)
   \<and> fst (predict example_externals example_config ''oct_00000001'' example_state)
     = Json [(''image_id'', JStr ''oct_00000001''),
             (''predictions'',
                JObj [(''AMD'', JNum 0.02), (''CNV'', JNum 0.03), (''CSR'', JNum 0.05),
                      (''DME'', JNum 0.6), (''DR'', JNum 0.1), (''DRUSEN'', JNum 0.1),
                      (''MH'', JNum 0.05), (''NORMAL'', JNum 0.05)]),
             (''top_disease'', JStr ''DME''),
             (''confidence'', JNum 0.6),
             (''summary'', JStr ''AI suggests DME with #% confidence.''),
             (''recommendation'',
                JStr ''Recommend ophthalmology evaluation and correlation with clinical findings.'')]
   \<and> fst (predict example_externals example_config ''oct_00000002'' example_state)
     = Unhandled DecodeError"
proof -
  have none: "\<forall>name\<in>set (os_listdir (disk example_state) (UPLOAD_FOLDER example_config)).
               \<not> startswith name (''nonexistent_id'' @ ''_'')"
    by (simp add: example_state_def example_upload_folder example_uploads startswith_def)
  have f1: "find_image_path_by_id (disk example_state) ''oct_00000001'' (UPLOAD_FOLDER example_config)
              = Some ''/srv/app/uploads/oct_00000001_scan.png''"
    by (simp add: example_state_def example_upload_folder example_find_scan)
  have f2: "find_image_path_by_id (disk example_state) ''oct_00000002'' (UPLOAD_FOLDER example_config)
              = Some ''/srv/app/uploads/oct_00000002_notes.png''"
    by (simp add: example_state_def example_upload_folder example_find_notes)
  have i1: "predict_oct example_externals (disk example_state) (model_slot example_state)
              ''/srv/app/uploads/oct_00000001_scan.png'' (MODEL_PATH example_config)
              (Some (CLASS_NAMES example_config))
            = (Inr \<lparr>predictions = [(''AMD'', 0.02), (''CNV'', 0.03), (''CSR'', 0.05), (''DME'', 0.6),
                            (''DR'', 0.1), (''DRUSEN'', 0.1), (''MH'', 0.05), (''NORMAL'', 0.05)],
            top_disease = ''DME'', confidence = 0.6\<rparr>, Some (example_net 100))"
    using example_inference by (simp add: example_state_def)
  have i2: "predict_oct example_externals (disk example_state) (model_slot example_state)
              ''/srv/app/uploads/oct_00000002_notes.png'' (MODEL_PATH example_config)
              (Some (CLASS_NAMES example_config))
            = (Inl DecodeError, Some (example_net 100))"
    using example_inference_fails by (simp add: example_state_def)
  note t = predict_responses [where ext = example_externals and cfg = example_config
                                 and st = example_state]
  have a: "predict example_externals example_config ''nonexistent_id'' example_state
             = (Abort 404 ''Image not found.'', example_state)"
    using t [of "''nonexistent_id''"] none by blast
  have b: "predict example_externals example_config ''oct_00000001'' example_state
             = (Json [(''image_id'', JStr ''oct_00000001''),
                      (''predictions'', predictions_json [(''AMD'', 0.02), (''CNV'', 0.03), (''CSR'', 0.05), (''DME'', 0.6),
                            (''DR'', 0.1), (''DRUSEN'', 0.1), (''MH'', 0.05), (''NORMAL'', 0.05)]),
                      (''top_disease'', JStr ''DME''),
                      (''confidence'', JNum 0.6),
                      (''summary'', JStr (fst (predict_texts example_externals \<lparr>predictions = [(''AMD'', 0.02), (''CNV'', 0.03), (''CSR'', 0.05), (''DME'', 0.6),
                            (''DR'', 0.1), (''DRUSEN'', 0.1), (''MH'', 0.05), (''NORMAL'', 0.05)],
            top_disease = ''DME'', confidence = 0.6\<rparr>))),
                      (''recommendation'', JStr (snd (predict_texts example_externals \<lparr>predictions = [(''AMD'', 0.02), (''CNV'', 0.03), (''CSR'', 0.05), (''DME'', 0.6),
                            (''DR'', 0.1), (''DRUSEN'', 0.1), (''MH'', 0.05), (''NORMAL'', 0.05)],
            top_disease = ''DME'', confidence = 0.6\<rparr>)))],
                example_state\<lparr>model_slot := Some (example_net 100)\<rparr>)"
    using t [of "''oct_00000001''" "''/srv/app/uploads/oct_00000001_scan.png''" _ "Some (example_net 100)"]
          f1 i1 by simp
  have c: "predict example_externals example_config ''oct_00000002'' example_state
             = (Unhandled DecodeError, example_state\<lparr>model_slot := Some (example_net 100)\<rparr>)"
    using t [of "''oct_00000002''" "''/srv/app/uploads/oct_00000002_notes.png''" _ "Some (example_net 100)" DecodeError]
          f2 i2 by simp
  show ?thesis
    using a b c
    by (simp add: predictions_json_def predict_texts_def str_upper_def char_upper_def
        example_externals_def)
qed

text \<open>
  As written the claim promises the predictions whenever the id resolves to a file. The
  upload \<open>oct_00000002_notes.png\<close> has an allowed name but is not a readable image: the
  id resolves, decoding raises, and the answer is neither a 404 nor a prediction.
\<close>

theorem predict_unreadable_upload_counterexample:
  "find_image_path_by_id (disk example_state) ''oct_00000002'' (UPLOAD_FOLDER example_config)
     = Some ''/srv/app/uploads/oct_00000002_notes.png''
   \<and> fst (predict example_externals example_config ''oct_00000002'' example_state)
       = Unhandled DecodeError"
  by (simp add: predict_def example_state_def example_upload_folder example_find_notes
      example_inference_fails)

subsection \<open>The full-name table of the report\<close>

lemma disease_full_name_keys:
  "fst ` set disease_full_name = set (CLASS_NAMES (Config base_dir url))"
  by (simp add: disease_full_name_def Config_def)

lemma pred_rows_loop_ok:
  "fst ` set preds \<subseteq> fst ` set disease_full_name \<Longrightarrow>
     \<exists>rows. pred_rows_loop ext preds acc = Inr rows \<and> length rows = length acc + length preds"
proof (induction preds arbitrary: acc)
  case Nil
  then show ?case by simp
next
  case (Cons a preds)
  obtain disease prob where a: "a = (disease, prob)" by (cases a)
  from Cons.prems a have "disease \<in> fst ` set disease_full_name" by simp
  then obtain full_name where f: "map_of disease_full_name disease = Some full_name"
    by (metis map_of_eq_None_iff not_Some_eq)
  from Cons.prems have "fst ` set preds \<subseteq> fst ` set disease_full_name" by simp
  from Cons.IH [OF this, of "acc @ [[Str full_name, Str (format_fixed ext 2 (prob * 100) @ ''%'')]]"]
  show ?case using a f by auto
qed

lemma pred_rows_loop_fail:
  "\<not> fst ` set preds \<subseteq> fst ` set disease_full_name \<Longrightarrow>
     pred_rows_loop ext preds acc = Inl KeyError"
proof (induction preds arbitrary: acc)
  case Nil
  then show ?case by simp
next
  case (Cons a preds)
  obtain disease prob where a: "a = (disease, prob)" by (cases a)
  show ?case
  proof (cases "map_of disease_full_name disease")
    case None
    then show ?thesis using a by simp
  next
    case (Some full_name)
    then have "disease \<in> fst ` set disease_full_name"
      by (metis map_of_eq_None_iff option.distinct(1))
    with Cons.prems a have "\<not> fst ` set preds \<subseteq> fst ` set disease_full_name" by auto
    from Cons.IH [OF this] Some a show ?thesis by simp
  qed
qed

lemma pred_rows_loop_rows:
  "fst ` set preds \<subseteq> fst ` set disease_full_name \<Longrightarrow>
     pred_rows_loop ext preds acc
       = Inr (acc @ map (\<lambda>(disease, prob).
                          [Str (the (map_of disease_full_name disease)),
                           Str (format_fixed ext 2 (prob * 100) @ ''%'')]) preds)"
proof (induction preds arbitrary: acc)
  case Nil
  then show ?case by simp
next
  case (Cons a preds)
  obtain disease prob where a: "a = (disease, prob)" by (cases a)
  from Cons.prems a have "disease \<in> fst ` set disease_full_name" by simp
  then obtain full_name where f: "map_of disease_full_name disease = Some full_name"
    by (metis map_of_eq_None_iff not_Some_eq)
  from Cons.prems have "fst ` set preds \<subseteq> fst ` set disease_full_name" by simp
  from Cons.IH [OF this, of "acc @ [[Str full_name, Str (format_fixed ext 2 (prob * 100) @ ''%'')]]"]
  show ?case using a f by simp
qed

lemma pred_rows_loop_full_names:
  assumes "fst ` set preds \<subseteq> fst ` set disease_full_name"
  shows "\<exists>rows. pred_rows_loop ext preds acc = Inr rows
           \<and> length rows = length acc + length preds
           \<and> take (length acc) rows = acc
           \<and> (\<forall>i<length preds. \<exists>full_name.
                  (fst (preds ! i), full_name) \<in> set disease_full_name
                \<and> rows ! (length acc + i)
                    = [Str full_name, Str (format_fixed ext 2 (snd (preds ! i) * 100) @ ''%'')])"
proof -
  let ?row = "\<lambda>(disease, prob). [Str (the (map_of disease_full_name disease)),
                                  Str (format_fixed ext 2 (prob * 100) @ ''%'')]"
  let ?rows = "acc @ map ?row preds"
  have r: "pred_rows_loop ext preds acc = Inr ?rows"
    using assms by (rule pred_rows_loop_rows)
  have each: "\<exists>full_name. (fst (preds ! i), full_name) \<in> set disease_full_name
                \<and> ?rows ! (length acc + i)
                    = [Str full_name, Str (format_fixed ext 2 (snd (preds ! i) * 100) @ ''%'')]"
    if i: "i < length preds" for i
  proof -
    from i assms have "fst (preds ! i) \<in> fst ` set disease_full_name"
      by (metis image_eqI nth_mem subsetD)
    then obtain full_name where f: "map_of disease_full_name (fst (preds ! i)) = Some full_name"
      by (metis map_of_eq_None_iff not_Some_eq)
    then have m: "(fst (preds ! i), full_name) \<in> set disease_full_name" by (rule map_of_SomeD)
    have "?rows ! (length acc + i) = ?row (preds ! i)" using i by (simp add: nth_append)
    also have "\<dots> = [Str full_name, Str (format_fixed ext 2 (snd (preds ! i) * 100) @ ''%'')]"
      using f by (simp add: case_prod_beta)
    finally show ?thesis using m by blast
  qed
  show ?thesis using r each by (intro exI [of _ ?rows]) simp
qed

lemma predict_oct_Inr:
  assumes "predict_oct ext fs slot image_path model_path (Some class_names) = (Inr result, slot')"
  shows "\<exists>probs. classify class_names probs = Inr result"
  using assms
  by (auto simp: predict_oct_def split: prod.splits sum.splits)

lemma example_two_settings:
  "UPLOAD_FOLDER example_config_two = ''/srv/app/uploads''"
  "MODEL_PATH example_config_two = ''/srv/app/two.h5''"
  "CLASS_NAMES example_config_two = [''WET'', ''DRY'']"
  by (simp_all add: example_config_two_def example_upload_folder)

lemma example_inference_two:
  "predict_oct example_externals example_disk None ''/srv/app/uploads/oct_00000001_scan.png''
     ''/srv/app/two.h5'' (Some [''WET'', ''DRY''])
   = (Inr \<lparr>predictions = [(''WET'', 0.9), (''DRY'', 0.1)], top_disease = ''WET'', confidence = 0.9\<rparr>,
      Some (example_net 102))"
  by (simp add: predict_oct_def get_model_def example_two_class_model example_image
      example_net_def classify_def np_argmax_def list_index_def)

text \<open>
  C9. The report's table of full names has eight entries, with distinct keys that are
  exactly the configured class names. On every list of predictions whose labels are
  among the configured class names the loop that builds the predictions table succeeds:
  it keeps the rows it was given and appends one row per prediction, in order, whose
  first cell is the full name the table gives for that prediction's label and whose
  second cell is the probability as a percentage with two decimals. So the report
  handler, which runs inference with those names, never fails with a lookup error, and
  the table built by the loop is an element of the document. On any list with a label
  outside the eight names the loop raises \<open>KeyError\<close>, and the handler then answers with
  the unhandled error and leaves the disk as it was: no PDF has been written.
\<close>

theorem report_full_name_lookup:
  "length disease_full_name = 8
   \<and> distinct (map fst disease_full_name)
   \<and> set (map fst disease_full_name) = set (CLASS_NAMES (Config base_dir url))
   \<and> (fst ` set preds \<subseteq> set (CLASS_NAMES (Config base_dir url)) \<longrightarrow>
        (\<exists>rows. pred_rows_loop ext preds acc = Inr rows
           \<and> length rows = length acc + length preds
           \<and> take (length acc) rows = acc
           \<and> (\<forall>i<length preds. \<exists>full_name.
                  (fst (preds ! i), full_name) \<in> set disease_full_name
                \<and> rows ! (length acc + i)
                    = [Str full_name, Str (format_fixed ext 2 (snd (preds ! i) * 100) @ ''%'')])))
   \<and> (\<not> fst ` set preds \<subseteq> {''AMD'', ''CNV'', ''CSR'', ''DME'', ''DR'', ''DRUSEN'', ''MH'', ''NORMAL''} \<longrightarrow>
        pred_rows_loop ext preds acc = Inl KeyError)
   \<and> (find_image_path_by_id (disk st) image_id (UPLOAD_FOLDER (Config base_dir url)) = Some image_path
        \<and> predict_oct ext (disk st) (model_slot st) image_path (MODEL_PATH (Config base_dir url))
             (Some (CLASS_NAMES (Config base_dir url))) = (Inr result, slot') \<longrightarrow>
        fst (generate_pdf_report ext (Config base_dir url) image_id now st) \<noteq> Unhandled KeyError
        \<and> (\<exists>elements rows.
              report_elements ext (Config base_dir url) (disk st) image_path
                (report_data_of image_id result now) = Inr elements
            \<and> pred_rows_loop ext (predictions result) [[Str ''Disease'', Str ''Probability'']] = Inr rows
            \<and> Table rows \<in> set elements))
   \<and> (find_image_path_by_id (disk st) image_id (UPLOAD_FOLDER cfg) = Some image_path
        \<and> predict_oct ext (disk st) (model_slot st) image_path (MODEL_PATH cfg)
             (Some (CLASS_NAMES cfg)) = (Inr result, slot')
        \<and> \<not> fst ` set (predictions result)
              \<subseteq> {''AMD'', ''CNV'', ''CSR'', ''DME'', ''DR'', ''DRUSEN'', ''MH'', ''NORMAL''} \<longrightarrow>
        generate_pdf_report ext cfg image_id now st = (Unhandled KeyError, st\<lparr>model_slot := slot'\<rparr>))"
proof -
  have keys: "fst ` set disease_full_name
                = {''AMD'', ''CNV'', ''CSR'', ''DME'', ''DR'', ''DRUSEN'', ''MH'', ''NORMAL''}"
    by (simp add: disease_full_name_def)
  have one: "length disease_full_name = 8" by (simp add: disease_full_name_def)
  have dist: "distinct (map fst disease_full_name)" by (simp add: disease_full_name_def)
  have same: "set (map fst disease_full_name) = set (CLASS_NAMES (Config base_dir url))"
    using disease_full_name_keys [of base_dir url] by simp
  have two: "fst ` set preds \<subseteq> set (CLASS_NAMES (Config base_dir url)) \<longrightarrow>
        (\<exists>rows. pred_rows_loop ext preds acc = Inr rows
           \<and> length rows = length acc + length preds
           \<and> take (length acc) rows = acc
           \<and> (\<forall>i<length preds. \<exists>full_name.
                  (fst (preds ! i), full_name) \<in> set disease_full_name
                \<and> rows ! (length acc + i)
                    = [Str full_name, Str (format_fixed ext 2 (snd (preds ! i) * 100) @ ''%'')]))"
    using pred_rows_loop_full_names [of preds ext acc] disease_full_name_keys [of base_dir url]
    by simp
  have three: "\<not> fst ` set preds \<subseteq> {''AMD'', ''CNV'', ''CSR'', ''DME'', ''DR'', ''DRUSEN'', ''MH'', ''NORMAL''} \<longrightarrow>
        pred_rows_loop ext preds acc = Inl KeyError"
    using pred_rows_loop_fail [of preds ext acc] keys by simp
  have four: "fst (generate_pdf_report ext (Config base_dir url) image_id now st) \<noteq> Unhandled KeyError
        \<and> (\<exists>elements rows.
              report_elements ext (Config base_dir url) (disk st) image_path
                (report_data_of image_id result now) = Inr elements
            \<and> pred_rows_loop ext (predictions result) [[Str ''Disease'', Str ''Probability'']] = Inr rows
            \<and> Table rows \<in> set elements)"
    if f: "find_image_path_by_id (disk st) image_id (UPLOAD_FOLDER (Config base_dir url)) = Some image_path"
    and p: "predict_oct ext (disk st) (model_slot st) image_path (MODEL_PATH (Config base_dir url))
             (Some (CLASS_NAMES (Config base_dir url))) = (Inr result, slot')"
  proof -
    from predict_oct_Inr [OF p] obtain probs where
      "classify (CLASS_NAMES (Config base_dir url)) probs = Inr result" by blast
    from classify_labels [OF this]
    have "fst ` set (predictions result) \<subseteq> fst ` set disease_full_name"
      using disease_full_name_keys [of base_dir url] by simp
    from pred_rows_loop_ok [OF this, of ext "[[Str ''Disease'', Str ''Probability'']]"]
    obtain rows where
      rows: "pred_rows_loop ext (predictions result) [[Str ''Disease'', Str ''Probability'']] = Inr rows"
      by blast
    obtain elements where
      e: "report_elements ext (Config base_dir url) (disk st) image_path
            (report_data_of image_id result now) = Inr elements"
      and t: "Table rows \<in> set elements"
      using rows by (simp add: report_elements_def report_data_of_def Let_def)
    have "fst (generate_pdf_report ext (Config base_dir url) image_id now st) \<noteq> Unhandled KeyError"
      using f p e
      by (auto simp: generate_pdf_report_def Let_def write_file_def split: option.splits sum.splits)
    with e rows t show ?thesis by blast
  qed
  have five: "generate_pdf_report ext cfg image_id now st = (Unhandled KeyError, st\<lparr>model_slot := slot'\<rparr>)"
    if f: "find_image_path_by_id (disk st) image_id (UPLOAD_FOLDER cfg) = Some image_path"
    and p: "predict_oct ext (disk st) (model_slot st) image_path (MODEL_PATH cfg)
             (Some (CLASS_NAMES cfg)) = (Inr result, slot')"
    and out: "\<not> fst ` set (predictions result)
              \<subseteq> {''AMD'', ''CNV'', ''CSR'', ''DME'', ''DR'', ''DRUSEN'', ''MH'', ''NORMAL''}"
  proof -
    have "pred_rows_loop ext (predictions result) [[Str ''Disease'', Str ''Probability'']] = Inl KeyError"
      using pred_rows_loop_fail [of "predictions result" ext] out keys by simp
    then show ?thesis using f p
      by (simp add: generate_pdf_report_def report_elements_def report_data_of_def Let_def)
  qed
  from one dist same two three four five show ?thesis by blast
qed

theorem report_full_name_lookup_witness:
  "(\<exists>rows. pred_rows_loop example_externals [(''DME'', 0.6), (''NORMAL'', 0.4)]
              [[Str ''Disease'', Str ''Probability'']] = Inr rows
         \<and> length rows = 3
         \<and> rows ! 0 = [Str ''Disease'', Str ''Probability'']
         \<and> rows ! 1 = [Str ''DME (Diabetic Macular Edema)'', Str ''#%'']
         \<and> rows ! 2 = [Str ''NORMAL (Normal)'', Str ''#%''])
   \<and> pred_rows_loop example_externals [(''DME'', 0.6), (''GLAUCOMA'', 0.4)]
        [[Str ''Disease'', Str ''Probability'']] = Inl KeyError
   \<and> fst (generate_pdf_report example_externals example_config ''oct_00000001'' ''2026-01-01 10:00:00''
            example_state) \<noteq> Unhandled KeyError
   \<and> generate_pdf_report example_externals example_config_two ''oct_00000001'' ''2026-01-01 10:00:00''
        example_state
       = (Unhandled KeyError, example_state\<lparr>model_slot := Some (example_net 102)\<rparr>)"
proof -
  let ?preds = "[(''DME'', 0.6 :: real), (''NORMAL'', 0.4)]"
  let ?header = "[[Str ''Disease'', Str ''Probability'']]"
  have a: "fst ` set ?preds \<subseteq> set (CLASS_NAMES (Config ''/srv/app'' []))"
    by (simp add: Config_def)
  have b: "\<not> fst ` set [(''DME'', 0.6 :: real), (''GLAUCOMA'', 0.4)]
             \<subseteq> {''AMD'', ''CNV'', ''CSR'', ''DME'', ''DR'', ''DRUSEN'', ''MH'', ''NORMAL''}"
    by simp
  have c: "find_image_path_by_id (disk example_state) ''oct_00000001''
             (UPLOAD_FOLDER (Config ''/srv/app'' [])) = Some ''/srv/app/uploads/oct_00000001_scan.png''"
    using example_find_scan example_upload_folder by (simp add: example_state_def example_config_def)
  have d: "predict_oct example_externals (disk example_state) (model_slot example_state)
             ''/srv/app/uploads/oct_00000001_scan.png'' (MODEL_PATH (Config ''/srv/app'' []))
             (Some (CLASS_NAMES (Config ''/srv/app'' [])))
           = (Inr \<lparr>predictions = [(''AMD'', 0.02), (''CNV'', 0.03), (''CSR'', 0.05), (''DME'', 0.6),
                            (''DR'', 0.1), (''DRUSEN'', 0.1), (''MH'', 0.05), (''NORMAL'', 0.05)],
                   top_disease = ''DME'', confidence = 0.6\<rparr>, Some (example_net 100))"
    using example_inference by (simp add: example_state_def example_config_def)
  have e: "find_image_path_by_id (disk example_state) ''oct_00000001''
             (UPLOAD_FOLDER example_config_two) = Some ''/srv/app/uploads/oct_00000001_scan.png''"
    using example_find_scan by (simp add: example_state_def example_two_settings)
  have f: "predict_oct example_externals (disk example_state) (model_slot example_state)
             ''/srv/app/uploads/oct_00000001_scan.png'' (MODEL_PATH example_config_two)
             (Some (CLASS_NAMES example_config_two))
           = (Inr \<lparr>predictions = [(''WET'', 0.9), (''DRY'', 0.1)], top_disease = ''WET'',
                   confidence = 0.9\<rparr>, Some (example_net 102))"
    using example_inference_two by (simp add: example_state_def example_two_settings)
  have g: "\<not> fst ` set (predictions \<lparr>predictions = [(''WET'', 0.9 :: real), (''DRY'', 0.1)],
                                       top_disease = ''WET'', confidence = 0.9\<rparr>)
             \<subseteq> {''AMD'', ''CNV'', ''CSR'', ''DME'', ''DR'', ''DRUSEN'', ''MH'', ''NORMAL''}"
    by simp
  have "\<exists>rows. pred_rows_loop example_externals ?preds ?header = Inr rows
           \<and> length rows = length ?header + length ?preds
           \<and> take (length ?header) rows = ?header
           \<and> (\<forall>i<length ?preds. \<exists>full_name.
                  (fst (?preds ! i), full_name) \<in> set disease_full_name
                \<and> rows ! (length ?header + i)
                    = [Str full_name,
                       Str (format_fixed example_externals 2 (snd (?preds ! i) * 100) @ ''%'')])"
    using report_full_name_lookup
            [where preds = ?preds and base_dir = "''/srv/app''"
               and url = "[]" and ext = example_externals and acc = ?header] a
    by blast
  then obtain rows where
    rows: "pred_rows_loop example_externals ?preds ?header = Inr rows"
          "length rows = length ?header + length ?preds"
          "take (length ?header) rows = ?header"
    and each: "\<And>i. i < length ?preds \<Longrightarrow> \<exists>full_name.
                  (fst (?preds ! i), full_name) \<in> set disease_full_name
                \<and> rows ! (length ?header + i)
                    = [Str full_name,
                       Str (format_fixed example_externals 2 (snd (?preds ! i) * 100) @ ''%'')]"
    by blast
  have l: "length rows = 3" using rows(2) by simp
  have r0: "rows ! 0 = [Str ''Disease'', Str ''Probability'']"
  proof -
    have "take (length ?header) rows ! 0 = rows ! 0" by simp
    then show ?thesis by (simp only: rows(3) nth_Cons_0)
  qed
  from each [of 0] obtain n1 where
    n1: "(''DME'', n1) \<in> set disease_full_name"
        "rows ! (length ?header + 0)
           = [Str n1, Str (format_fixed example_externals 2 (snd (?preds ! 0) * 100) @ ''%'')]"
    by auto
  from n1(1) have "n1 = ''DME (Diabetic Macular Edema)''" by (simp add: disease_full_name_def)
  with n1(2) have r1: "rows ! 1 = [Str ''DME (Diabetic Macular Edema)'', Str ''#%'']"
    by (simp add: example_externals_def)
  from each [of 1] obtain n2 where
    n2: "(''NORMAL'', n2) \<in> set disease_full_name"
        "rows ! (length ?header + 1)
           = [Str n2, Str (format_fixed example_externals 2 (snd (?preds ! 1) * 100) @ ''%'')]"
    by auto
  from n2(1) have "n2 = ''NORMAL (Normal)''" by (simp add: disease_full_name_def)
  with n2(2) have r2': "rows ! 2 = [Str ''NORMAL (Normal)'', Str ''#%'']"
    by (simp add: example_externals_def numeral_2_eq_2)
  from rows(1) l r0 r1 r2'
  have r1all: "\<exists>rows. pred_rows_loop example_externals ?preds ?header = Inr rows
         \<and> length rows = 3
         \<and> rows ! 0 = [Str ''Disease'', Str ''Probability'']
         \<and> rows ! 1 = [Str ''DME (Diabetic Macular Edema)'', Str ''#%'']
         \<and> rows ! 2 = [Str ''NORMAL (Normal)'', Str ''#%'']"
    by blast
  have r2: "pred_rows_loop example_externals [(''DME'', 0.6), (''GLAUCOMA'', 0.4)]
        [[Str ''Disease'', Str ''Probability'']] = Inl KeyError"
    using report_full_name_lookup
            [where preds = "[(''DME'', 0.6), (''GLAUCOMA'', 0.4)]" and ext = example_externals
               and acc = "[[Str ''Disease'', Str ''Probability'']]"] b
    by blast
  have r3: "fst (generate_pdf_report example_externals example_config ''oct_00000001''
                  ''2026-01-01 10:00:00'' example_state) \<noteq> Unhandled KeyError"
    using report_full_name_lookup
            [where st = example_state and image_id = "''oct_00000001''" and base_dir = "''/srv/app''"
               and url = "[]" and ext = example_externals
               and image_path = "''/srv/app/uploads/oct_00000001_scan.png''"
               and slot' = "Some (example_net 100)" and now = "''2026-01-01 10:00:00''"] c d
    unfolding example_config_def by blast
  have r4: "generate_pdf_report example_externals example_config_two ''oct_00000001''
              ''2026-01-01 10:00:00'' example_state
            = (Unhandled KeyError, example_state\<lparr>model_slot := Some (example_net 102)\<rparr>)"
    using report_full_name_lookup
            [where st = example_state and image_id = "''oct_00000001''" and cfg = example_config_two
               and ext = example_externals
               and image_path = "''/srv/app/uploads/oct_00000001_scan.png''"
               and slot' = "Some (example_net 102)" and now = "''2026-01-01 10:00:00''"
               and result = "\<lparr>predictions = [(''WET'', 0.9), (''DRY'', 0.1)],
                                       top_disease = ''WET'', confidence = 0.9\<rparr>"] e f g
    by blast
  from r1all r2 r3 r4 show ?thesis by blast
qed

subsection \<open>Summary and recommendation\<close>

lemma configured_label_upper:
  assumes "label \<in> set (CLASS_NAMES (Config base_dir url))"
  shows "str_upper label = ''NORMAL'' \<longleftrightarrow> label = ''NORMAL''"
proof -
  from assms have "label \<in> {''AMD'', ''CNV'', ''CSR'', ''DME'', ''DR'', ''DRUSEN'', ''MH'', ''NORMAL''}"
    by (simp add: Config_def)
  then show ?thesis
    by (elim insertE emptyE) (simp_all add: str_upper_def char_upper_def)
qed

text \<open>
  C7. Let the id resolve to a file and inference, run with the configured class names,
  return a result. Write \<open>summary\<close> and \<open>recommendation\<close> for the two sentences chosen
  by whether the top label is \<open>NORMAL\<close>, the first with the confidence percentage to one
  decimal. Then these are the texts computed by \<open>GET /predict\<close> (they are the
  \<open>summary\<close> and \<open>recommendation\<close> fields of its answer) and the texts computed by the
  report generator, which puts them into the document as two body paragraphs; the
  document rendered from these elements is what the report handler writes. The code
  compares the upper-cased label with \<open>NORMAL\<close>, which on the configured labels is the
  same test.
\<close>

theorem summary_and_recommendation_agree:
  assumes found: "find_image_path_by_id (disk st) image_id (UPLOAD_FOLDER (Config base_dir url))
                    = Some image_path"
      and inference: "predict_oct ext (disk st) (model_slot st) image_path
                        (MODEL_PATH (Config base_dir url)) (Some (CLASS_NAMES (Config base_dir url)))
                      = (Inr result, slot')"
      and pct: "pct = format_fixed ext 1 (confidence result * 100)"
      and summary: "summary =
             (if top_disease result = ''NORMAL''
              then ''AI suggests no significant abnormalities detected ('' @ pct @ ''% confidence).''
              else ''AI suggests '' @ top_disease result @ '' with '' @ pct @ ''% confidence.'')"
      and recommendation: "recommendation =
             (if top_disease result = ''NORMAL''
              then ''Routine monitoring advised; follow standard screening intervals.''
              else ''Recommend ophthalmology evaluation and correlation with clinical findings.'')"
  shows "predict_texts ext result = (summary, recommendation)
       \<and> report_texts ext (report_data_of image_id result now) = (summary, recommendation)
       \<and> json_field ''summary'' (fst (predict ext (Config base_dir url) image_id st))
           = Some (JStr summary)
       \<and> json_field ''recommendation'' (fst (predict ext (Config base_dir url) image_id st))
           = Some (JStr recommendation)
       \<and> (\<exists>elements.
             report_elements ext (Config base_dir url) (disk st) image_path
               (report_data_of image_id result now) = Inr elements
           \<and> Paragraph summary ''BodyText'' \<in> set elements
           \<and> Paragraph recommendation ''BodyText'' \<in> set elements
           \<and> generate_pdf_report ext (Config base_dir url) image_id now st
               = (case write_file (disk st)
                         (os_path_join (REPORTS_FOLDER (Config base_dir url)) (image_id @ ''_report.pdf''))
                         (render_pdf ext elements
                            (''AI generated '' @ [CHR 0xE2, CHR 0x80, CHR 0xA2] @ '' '' @ now)) of
                    Inl e \<Rightarrow> (Unhandled e, st\<lparr>model_slot := slot'\<rparr>)
                  | Inr fs' \<Rightarrow>
                      (SendFile (os_path_join (REPORTS_FOLDER (Config base_dir url))
                                   (image_id @ ''_report.pdf''))
                                (''report_'' @ image_id @ ''.pdf''),
                       st\<lparr>model_slot := slot', disk := fs'\<rparr>)))"
proof -
  let ?cfg = "Config base_dir url"
  let ?data = "report_data_of image_id result now"
  from predict_oct_Inr [OF inference] obtain probs where
    c: "classify (CLASS_NAMES ?cfg) probs = Inr result" by blast
  from classify_labels [OF c] have top: "top_disease result \<in> set (CLASS_NAMES ?cfg)"
    and labels: "fst ` set (predictions result) \<subseteq> set (CLASS_NAMES ?cfg)" by simp_all
  have up: "str_upper (top_disease result) = ''NORMAL'' \<longleftrightarrow> top_disease result = ''NORMAL''"
    using top by (rule configured_label_upper)
  have p: "predict_texts ext result = (summary, recommendation)"
    using up by (simp add: predict_texts_def Let_def summary recommendation pct)
  have r: "report_texts ext ?data = (summary, recommendation)"
    using up by (simp add: report_texts_def report_data_of_def Let_def summary recommendation pct)
  have j: "json_field ''summary'' (fst (predict ext ?cfg image_id st)) = Some (JStr summary)
         \<and> json_field ''recommendation'' (fst (predict ext ?cfg image_id st)) = Some (JStr recommendation)"
    using found inference p by (simp add: predict_def)
  have "fst ` set (data_predictions ?data) \<subseteq> fst ` set disease_full_name"
    using labels disease_full_name_keys [of base_dir url] by (simp add: report_data_of_def)
  from pred_rows_loop_ok [OF this, of ext "[[Str ''Disease'', Str ''Probability'']]"]
  obtain rows where
    rows: "pred_rows_loop ext (data_predictions ?data) [[Str ''Disease'', Str ''Probability'']] = Inr rows"
    by blast
  obtain elements where
    e: "report_elements ext ?cfg (disk st) image_path ?data = Inr elements"
    and mem: "Paragraph (fst (report_texts ext ?data)) ''BodyText'' \<in> set elements"
             "Paragraph (snd (report_texts ext ?data)) ''BodyText'' \<in> set elements"
    using rows by (simp add: report_elements_def Let_def)
  have g: "generate_pdf_report ext ?cfg image_id now st
               = (case write_file (disk st)
                         (os_path_join (REPORTS_FOLDER ?cfg) (image_id @ ''_report.pdf''))
                         (render_pdf ext elements
                            (''AI generated '' @ [CHR 0xE2, CHR 0x80, CHR 0xA2] @ '' '' @ now)) of
                    Inl e \<Rightarrow> (Unhandled e, st\<lparr>model_slot := slot'\<rparr>)
                  | Inr fs' \<Rightarrow>
                      (SendFile (os_path_join (REPORTS_FOLDER ?cfg) (image_id @ ''_report.pdf''))
                                (''report_'' @ image_id @ ''.pdf''),
                       st\<lparr>model_slot := slot', disk := fs'\<rparr>))"
    using found inference e by (simp add: generate_pdf_report_def Let_def)
  from mem r have mem': "Paragraph summary ''BodyText'' \<in> set elements"
                        "Paragraph recommendation ''BodyText'' \<in> set elements" by simp_all
  from p r j e mem' g show ?thesis by blast
qed

theorem summary_and_recommendation_agree_witness:
  "json_field ''summary'' (fst (predict example_externals example_config ''oct_00000001'' example_state))
     = Some (JStr ''AI suggests DME with #% confidence.'')
   \<and> report_texts example_externals
        (report_data_of ''oct_00000001''
           \<lparr>predictions = [(''AMD'', 0.02), (''CNV'', 0.03), (''CSR'', 0.05), (''DME'', 0.6),
                           (''DR'', 0.1), (''DRUSEN'', 0.1), (''MH'', 0.05), (''NORMAL'', 0.05)],
            top_disease = ''DME'', confidence = 0.6\<rparr> ''2026-01-01 10:00:00'')
     = (''AI suggests DME with #% confidence.'',
        ''Recommend ophthalmology evaluation and correlation with clinical findings.'')"
proof -
  let ?result = "\<lparr>predictions = [(''AMD'', 0.02), (''CNV'', 0.03), (''CSR'', 0.05), (''DME'', 0.6),
                           (''DR'', 0.1), (''DRUSEN'', 0.1), (''MH'', 0.05), (''NORMAL'', 0.05)],
            top_disease = ''DME'', confidence = 0.6 :: real\<rparr>"
  have c: "find_image_path_by_id (disk example_state) ''oct_00000001''
             (UPLOAD_FOLDER (Config ''/srv/app'' [])) = Some ''/srv/app/uploads/oct_00000001_scan.png''"
    using example_find_scan example_upload_folder by (simp add: example_state_def example_config_def)
  have d: "predict_oct example_externals (disk example_state) (model_slot example_state)
             ''/srv/app/uploads/oct_00000001_scan.png'' (MODEL_PATH (Config ''/srv/app'' []))
             (Some (CLASS_NAMES (Config ''/srv/app'' [])))
           = (Inr ?result, Some (example_net 100))"
    using example_inference by (simp add: example_state_def example_config_def)
  have pct: "''#'' = format_fixed example_externals 1 (confidence ?result * 100)"
    by (simp add: example_externals_def)
  have s: "''AI suggests DME with #% confidence.'' =
             (if top_disease ?result = ''NORMAL''
              then ''AI suggests no significant abnormalities detected ('' @ ''#'' @ ''% confidence).''
              else ''AI suggests '' @ top_disease ?result @ '' with '' @ ''#'' @ ''% confidence.'')"
    by simp
  have r: "''Recommend ophthalmology evaluation and correlation with clinical findings.'' =
             (if top_disease ?result = ''NORMAL''
              then ''Routine monitoring advised; follow standard screening intervals.''
              else ''Recommend ophthalmology evaluation and correlation with clinical findings.'')"
    by simp
  from summary_and_recommendation_agree [OF c d pct s r, of "''2026-01-01 10:00:00''"]
  show ?thesis unfolding example_config_def by blast
qed

subsection \<open>Image identifiers\<close>

lemma hex_digit_lower_hex: "n < 16 \<Longrightarrow> is_lower_hex (hex_digit n)"
  unfolding is_lower_hex_def hex_digit_def by (rule nth_mem) simp

lemma hex_digit_inj: "a < 16 \<Longrightarrow> b < 16 \<Longrightarrow> hex_digit a = hex_digit b \<longleftrightarrow> a = b"
  unfolding hex_digit_def by (subst nth_eq_iff_index_eq) simp_all

lemma nibble_bound: "unat (w AND 15) < 16" for w :: "128 word"
proof -
  have "unat (w AND 15) \<le> unat (15 :: 128 word)"
    by (rule word_and_le1 [THEN word_le_nat_alt [THEN iffD1]])
  then show ?thesis by simp
qed

lemma take_uuid_hex:
  "take 8 (uuid_hex u) = map (\<lambda>i. hex_digit (unat (drop_bit (4 * (31 - i)) u AND 15))) [0..<8]"
  by (simp add: uuid_hex_def take_map)

lemma generate_image_id_chars:
  "length (generate_image_id r) = 12 \<and> take 4 (generate_image_id r) = ''oct_''
   \<and> list_all is_lower_hex (drop 4 (generate_image_id r))"
  by (simp add: generate_image_id_def take_uuid_hex list_all_iff hex_digit_lower_hex nibble_bound)

lemma uuid4_top_bits: "drop_bit 96 (uuid4 r) = drop_bit 96 r"
proof -
  define m1 m2 m3 m4 :: "128 word"
    where "m1 = push_bit 48 0xc000" and "m2 = push_bit 48 0x8000"
      and "m3 = push_bit 64 0xf000" and "m4 = push_bit 76 4"
  have low: "drop_bit 96 m1 = 0" "drop_bit 96 m2 = 0" "drop_bit 96 m3 = 0" "drop_bit 96 m4 = 0"
    by (simp_all add: m1_def m2_def m3_def m4_def)
  have z: "\<not> bit c (96 + n)" if "drop_bit 96 c = 0" for c :: "128 word" and n
  proof -
    have "bit (drop_bit 96 c) n = bit c (96 + n)" by (simp add: bit_drop_bit_eq)
    with that show ?thesis by simp
  qed
  have u: "uuid4 r = (((r AND NOT m1) OR m2) AND NOT m3) OR m4"
    by (simp only: uuid4_def m1_def m2_def m3_def m4_def)
  show ?thesis
  proof (rule bit_eqI)
    fix n
    have "bit ((((r AND NOT m1) OR m2) AND NOT m3) OR m4) (96 + n) = bit r (96 + n)"
      using z [OF low(1), of n] z [OF low(2), of n] z [OF low(3), of n] z [OF low(4), of n]
      by (auto simp: bit_and_iff bit_or_iff bit_not_iff dest: bit_imp_le_length)
    then show "bit (drop_bit 96 (uuid4 r)) n = bit (drop_bit 96 r) n"
      by (simp only: u bit_drop_bit_eq o_def)
  qed
qed

lemma nibble_of_top:
  fixes u :: "128 word"
  assumes "i < 8"
  shows "drop_bit (4 * (31 - i)) u AND 15 = drop_bit (4 * (7 - i)) (drop_bit 96 u) AND 15"
proof -
  have "4 * (31 - i) = 4 * (7 - i) + 96" using assms by simp
  then show ?thesis by (simp add: drop_bit_drop_bit add.commute)
qed

lemma top_bits_from_nibbles:
  fixes u v :: "128 word"
  assumes "\<forall>i<8. drop_bit (4 * (31 - i)) u AND 15 = drop_bit (4 * (31 - i)) v AND 15"
  shows "drop_bit 96 u = drop_bit 96 v"
proof (rule bit_eqI)
  fix n
  show "bit (drop_bit 96 u) n = bit (drop_bit 96 v) n"
  proof (cases "n < 32")
    case True
    let ?i = "7 - n div 4"
    have i: "?i < 8" by simp
    have pos: "4 * (31 - ?i) + n mod 4 = 96 + n" using True by presburger
    have m: "bit (15 :: 128 word) (n mod 4)"
    proof -
      have a: "bit (Bit_Operations.mask 4 :: 128 word) (n mod 4)" by (simp add: bit_mask_iff)
      have b: "(Bit_Operations.mask 4 :: 128 word) = 15" by (simp add: mask_eq_exp_minus_1)
      from a show ?thesis unfolding b .
    qed
    have nib: "bit (drop_bit (4 * (31 - ?i)) w AND 15) (n mod 4) = bit w (96 + n)" for w :: "128 word"
      using m pos by (simp add: bit_and_iff bit_drop_bit_eq add.commute)
    from assms i have "drop_bit (4 * (31 - ?i)) u AND 15 = drop_bit (4 * (31 - ?i)) v AND 15" by blast
    then have "bit u (96 + n) = bit v (96 + n)" using nib [of u] nib [of v] by simp
    then show ?thesis by (simp add: bit_drop_bit_eq)
  next
    case False
    then have "\<not> bit w (96 + n)" for w :: "128 word"
      by (auto dest: bit_imp_le_length)
    then show ?thesis by (simp add: bit_drop_bit_eq)
  qed
qed

lemma generate_image_id_eq_iff:
  "generate_image_id r1 = generate_image_id r2 \<longleftrightarrow> drop_bit 96 r1 = drop_bit 96 r2"
proof
  assume eq: "generate_image_id r1 = generate_image_id r2"
  then have "\<forall>i<8. hex_digit (unat (drop_bit (4 * (31 - i)) (uuid4 r1) AND 15))
                  = hex_digit (unat (drop_bit (4 * (31 - i)) (uuid4 r2) AND 15))"
    by (simp add: generate_image_id_def take_uuid_hex)
  then have "\<forall>i<8. drop_bit (4 * (31 - i)) (uuid4 r1) AND 15 = drop_bit (4 * (31 - i)) (uuid4 r2) AND 15"
    by (simp add: hex_digit_inj nibble_bound word_unat_eq_iff)
  from top_bits_from_nibbles [OF this] show "drop_bit 96 r1 = drop_bit 96 r2"
    by (simp add: uuid4_top_bits)
next
  assume "drop_bit 96 r1 = drop_bit 96 r2"
  then have "drop_bit 96 (uuid4 r1) = drop_bit 96 (uuid4 r2)" by (simp add: uuid4_top_bits)
  then have "\<forall>i<8. drop_bit (4 * (31 - i)) (uuid4 r1) AND 15 = drop_bit (4 * (31 - i)) (uuid4 r2) AND 15"
    by (simp add: nibble_of_top)
  then show "generate_image_id r1 = generate_image_id r2"
    by (simp add: generate_image_id_def take_uuid_hex)
qed

lemma example_id_zero: "generate_image_id 0 = ''oct_00000000''"
  by code_simp

lemma example_id_one: "generate_image_id 1 = ''oct_00000000''"
  by code_simp

lemma example_uuids_differ: "uuid4 0 \<noteq> uuid4 1"
  by (simp add: uuid4_def)

text \<open>
  C8, as the code has it. Every value of \<open>generate_image_id\<close> matches
  \<open>^oct_[0-9a-f]{8}$\<close>. The id keeps the first eight hexadecimal digits of the UUID,
  which are the top 32 of the 128 random bits: two calls return the same id exactly when
  their random bits agree there.
\<close>

theorem generate_image_id_pattern:
  "matches_image_id_pattern (generate_image_id r)
   \<and> (generate_image_id r1 = generate_image_id r2 \<longleftrightarrow> drop_bit 96 r1 = drop_bit 96 r2)"
  using generate_image_id_chars [of r] generate_image_id_eq_iff [of r1 r2]
  by (simp add: matches_image_id_pattern_def)

theorem generate_image_id_pattern_witness:
  "matches_image_id_pattern ''oct_00000000''
   \<and> generate_image_id (push_bit 96 1) \<noteq> generate_image_id 0"
proof -
  have "drop_bit 96 (push_bit 96 1 :: 128 word) \<noteq> drop_bit 96 0" by simp
  then show ?thesis
    using generate_image_id_pattern [of 0 "push_bit 96 1" 0] example_id_zero by simp
qed

text \<open>
  Distinct draws do not always give distinct ids: the UUIDs drawn from the random bits 0
  and 1 differ, and both ids are \<open>oct_00000000\<close>.
\<close>

theorem generate_image_id_collision_counterexample:
  "uuid4 0 \<noteq> uuid4 1 \<and> generate_image_id 0 = generate_image_id 1"
  by (simp add: example_uuids_differ example_id_zero example_id_one)

subsection \<open>The upload endpoint\<close>

lemma os_path_split_join:
  assumes n: "CHR ''/'' \<notin> set n" and d: "d \<noteq> []" "last d \<noteq> CHR ''/''"
  shows "os_path_split (os_path_join d n) = (d, n)"
proof -
  have ns: "\<not> startswith n ''/''" using n by (cases n) (auto simp: startswith_def)
  have j: "os_path_join d n = d @ ''/'' @ n" using ns d by (simp add: os_path_join_def)
  have r: "rev (d @ ''/'' @ n) = rev n @ CHR ''/'' # rev d" by simp
  have t: "takeWhile (\<lambda>c. c \<noteq> CHR ''/'') (rev n @ CHR ''/'' # rev d) = rev n"
    using n by (subst takeWhile_append2) auto
  have dr: "dropWhile (\<lambda>c. c \<noteq> CHR ''/'') (rev n @ CHR ''/'' # rev d) = CHR ''/'' # rev d"
    using n by (subst dropWhile_append2) auto
  obtain ys y where dy: "d = ys @ [y]" using d(1) by (metis rev_exhaust)
  have y: "y \<noteq> CHR ''/''" using d(2) dy by simp
  have nr: "d @ ''/'' \<noteq> replicate (length (d @ ''/'')) CHR ''/''"
  proof
    assume "d @ ''/'' = replicate (length (d @ ''/'')) CHR ''/''"
    then have "set (d @ ''/'') \<subseteq> {CHR ''/''}" by (metis set_replicate_conv_if empty_subsetI subset_refl)
    then show False using dy y by auto
  qed
  have rs: "rstrip CHR ''/'' (d @ ''/'') = d" using dy y by (simp add: rstrip_def)
  show ?thesis
    unfolding j os_path_split_def Let_def r t dr using nr rs by simp
qed

lemma config_upload_folder_shape:
  "UPLOAD_FOLDER (Config base_dir url) \<noteq> [] \<and> last (UPLOAD_FOLDER (Config base_dir url)) \<noteq> CHR ''/''"
  by (simp add: Config_def os_path_join_def startswith_def)

lemma generate_image_id_no_slash: "CHR ''/'' \<notin> set (generate_image_id r)"
proof -
  have "is_lower_hex c \<Longrightarrow> c \<noteq> CHR ''/''" for c by (auto simp: is_lower_hex_def)
  then have "CHR ''/'' \<notin> set (drop 4 (generate_image_id r))"
    using generate_image_id_chars [of r] by (auto simp: list_all_iff)
  moreover have "CHR ''/'' \<notin> set (take 4 (generate_image_id r))"
    using generate_image_id_chars [of r] by simp
  moreover have "set (generate_image_id r)
                   = set (take 4 (generate_image_id r)) \<union> set (drop 4 (generate_image_id r))"
    by (metis append_take_drop_id set_append)
  ultimately show ?thesis by simp
qed

lemma write_file_into:
  assumes "fs d = Some entries" "n \<noteq> []" "length n \<le> NAME_MAX" "os_path_split path = (d, n)"
  shows "write_file fs path b = Inr (fs(d \<mapsto> AList.update n b entries))"
  using assms by (simp add: write_file_def)

lemma ensure_directories_keeps:
  "os_path_isdir fs d \<Longrightarrow> os_path_isdir (ensure_directories fs directories) d"
  by (induction directories arbitrary: fs)
     (auto simp: os_path_isdir_def os_makedirs_def split: option.splits)

lemma ensure_directories_creates:
  "d \<in> set directories \<Longrightarrow> os_path_isdir (ensure_directories fs directories) d"
proof (induction directories arbitrary: fs)
  case Nil
  then show ?case by simp
next
  case (Cons a directories)
  show ?case
  proof (cases "d = a")
    case True
    have "os_path_isdir (os_makedirs fs a) a"
      by (auto simp: os_path_isdir_def os_makedirs_def split: option.splits)
    then show ?thesis using True by (simp add: ensure_directories_keeps)
  next
    case False
    with Cons show ?thesis by simp
  qed
qed

lemma create_app_upload_folder:
  "os_path_isdir (disk (create_app cfg fs)) (UPLOAD_FOLDER cfg)"
proof -
  have "os_path_isdir
          (ensure_directories fs [UPLOAD_FOLDER cfg, RESULTS_FOLDER cfg, REPORTS_FOLDER cfg])
          (UPLOAD_FOLDER cfg)"
    by (rule ensure_directories_creates) simp
  then show ?thesis by (simp only: create_app_def app_state.simps)
qed

lemma scan_names_append:
  "\<forall>n\<in>set xs. \<not> startswith n pre \<Longrightarrow> scan_names pre d (xs @ ys) = scan_names pre d ys"
  by (induction xs) auto

lemma example_id_high: "generate_image_id 79228162514264337593543950336 = ''oct_00000001''"
  by code_simp

lemma example_allowed:
  "is_allowed_file ''scan.png'' (ALLOWED_EXTENSIONS example_config)"
  "\<not> is_allowed_file ''notes.txt'' (ALLOWED_EXTENSIONS example_config)"
  by (simp_all add: is_allowed_file_def rsplit1_def str_lower_def char_lower_def example_config_def
      Config_def)

lemma example_limit: "MAX_CONTENT_LENGTH example_config = 10485760"
  by (simp add: example_config_def Config_def)

lemma example_read_scan:
  "read_file example_disk ''/srv/app/uploads/oct_00000001_scan.png'' = Inr 5"
  by (simp add: read_file_def os_path_split_def rstrip_def example_disk_def)

lemma example_upload_again:
  "upload_image example_externals example_config
     \<lparr>content_length = 1000, files = [''image'' \<mapsto> \<lparr>filename = ''scan.png'', stream = 9\<rparr>],
      host_url = ''http://localhost:5000/''\<rparr> 79228162514264337593543950336 example_state
   = (Json [(''status'', JStr ''success''), (''image_id'', JStr ''oct_00000001''),
            (''message'', JStr ''Image uploaded successfully.'')],
      \<lparr>model_slot = None,
       disk = example_disk(''/srv/app/uploads'' \<mapsto>
                [(''oct_00000002_notes.png'', 0), (''oct_00000001_scan.png'', 9),
                 (''oct_00000001_again.png'', 6)])\<rparr>)"
proof -
  have name: "build_saved_filename (secure_filename example_externals) ''oct_00000001'' ''scan.png''
                = ''oct_00000001_scan.png''"
    by (simp add: build_saved_filename_def example_externals_def)
  have path: "os_path_join ''/srv/app/uploads'' ''oct_00000001_scan.png''
                = ''/srv/app/uploads/oct_00000001_scan.png''"
    by (simp add: os_path_join_def startswith_def)
  have split: "os_path_split ''/srv/app/uploads/oct_00000001_scan.png''
                = (''/srv/app/uploads'', ''oct_00000001_scan.png'')"
    by (simp add: os_path_split_def rstrip_def)
  have dir: "example_disk ''/srv/app/uploads''
               = Some [(''oct_00000002_notes.png'', 0), (''oct_00000001_scan.png'', 5),
                       (''oct_00000001_again.png'', 6)]"
    by (simp add: example_disk_def)
  have w: "write_file example_disk ''/srv/app/uploads/oct_00000001_scan.png'' 9
             = Inr (example_disk(''/srv/app/uploads'' \<mapsto>
                [(''oct_00000002_notes.png'', 0), (''oct_00000001_scan.png'', 9),
                 (''oct_00000001_again.png'', 6)]))"
    by (simp add: write_file_def split dir NAME_MAX_def)
  show ?thesis
    by (simp add: upload_image_def Let_def example_limit example_allowed example_id_high name
        example_upload_folder path w example_state_def)
qed

text \<open>
  C6, as the code has it. \<open>POST /upload\<close> with a body longer than
  \<open>MAX_CONTENT_LENGTH\<close> (10 MB) is refused with 413 when the handler reads the request's
  files. Otherwise it answers 400 (no file provided) when the request has no \<open>image\<close>
  field or the file's name is empty, and 400 (unsupported type) when the name's extension
  is not allowed; all three leave the state alone. Otherwise it generates an id and
  saves the file as \<open>id_\<close> followed by the sanitised name: if the save raises, the
  exception escapes and nothing has changed; if the upload directory exists (start-up
  creates it, \<open>create_app_upload_folder\<close>) and the saved name has no slash and is not
  longer than the file system allows, the answer is the success body with that id, the
  model slot is untouched, the upload directory lists the saved name, the file at the
  saved path holds the uploaded content (replacing a file of that name), and the id
  resolves to a file, to the saved one when the id was not in use before. The id comes
  from the random draw alone: two draws give the same id exactly when their top 32 bits
  agree, and the handler does not check it against the ids in use.
\<close>

theorem upload_image_responses:
  "(MAX_CONTENT_LENGTH cfg < content_length req \<longrightarrow>
       upload_image ext cfg req rnd st = (HttpError 413, st))
   \<and> MAX_CONTENT_LENGTH (Config base_dir url) = 10485760
   \<and> (content_length req \<le> MAX_CONTENT_LENGTH cfg
        \<and> (files req ''image'' = None \<or> (\<exists>upl. files req ''image'' = Some upl \<and> filename upl = [])) \<longrightarrow>
       upload_image ext cfg req rnd st = (Abort 400 ''No file provided.'', st))
   \<and> (content_length req \<le> MAX_CONTENT_LENGTH cfg
        \<and> files req ''image'' = Some upl \<and> filename upl \<noteq> []
        \<and> \<not> is_allowed_file (filename upl) (ALLOWED_EXTENSIONS cfg) \<longrightarrow>
       upload_image ext cfg req rnd st = (Abort 400 ''Unsupported file type.'', st))
   \<and> (content_length req \<le> MAX_CONTENT_LENGTH cfg
        \<and> files req ''image'' = Some upl \<and> filename upl \<noteq> []
        \<and> is_allowed_file (filename upl) (ALLOWED_EXTENSIONS cfg)
        \<and> write_file (disk st)
             (os_path_join (UPLOAD_FOLDER cfg)
                (build_saved_filename (secure_filename ext) (generate_image_id rnd) (filename upl)))
             (stream upl) = Inl e \<longrightarrow>
       upload_image ext cfg req rnd st = (Unhandled e, st))
   \<and> (content_length req \<le> MAX_CONTENT_LENGTH (Config base_dir url)
        \<and> files req ''image'' = Some upl \<and> filename upl \<noteq> []
        \<and> is_allowed_file (filename upl) (ALLOWED_EXTENSIONS (Config base_dir url))
        \<and> os_path_isdir (disk st) (UPLOAD_FOLDER (Config base_dir url))
        \<and> CHR ''/'' \<notin> set (secure_filename ext (filename upl))
        \<and> length (build_saved_filename (secure_filename ext) (generate_image_id rnd) (filename upl))
             \<le> NAME_MAX \<longrightarrow>
       (\<exists>st'. upload_image ext (Config base_dir url) req rnd st
                = (Json [(''status'', JStr ''success''),
                         (''image_id'', JStr (generate_image_id rnd)),
                         (''message'', JStr ''Image uploaded successfully.'')], st')
            \<and> model_slot st' = model_slot st
            \<and> build_saved_filename (secure_filename ext) (generate_image_id rnd) (filename upl)
                 \<in> set (os_listdir (disk st') (UPLOAD_FOLDER (Config base_dir url)))
            \<and> read_file (disk st')
                 (os_path_join (UPLOAD_FOLDER (Config base_dir url))
                    (build_saved_filename (secure_filename ext) (generate_image_id rnd) (filename upl)))
                = Inr (stream upl)
            \<and> find_image_path_by_id (disk st') (generate_image_id rnd)
                 (UPLOAD_FOLDER (Config base_dir url)) \<noteq> None
            \<and> (find_image_path_by_id (disk st) (generate_image_id rnd)
                  (UPLOAD_FOLDER (Config base_dir url)) = None \<longrightarrow>
                find_image_path_by_id (disk st') (generate_image_id rnd)
                  (UPLOAD_FOLDER (Config base_dir url))
                = Some (os_path_join (UPLOAD_FOLDER (Config base_dir url))
                          (build_saved_filename (secure_filename ext) (generate_image_id rnd)
                             (filename upl))))))
   \<and> (generate_image_id rnd = generate_image_id rnd' \<longleftrightarrow> drop_bit 96 rnd = drop_bit 96 rnd')"
proof -
  have zero: "MAX_CONTENT_LENGTH cfg < content_length req \<longrightarrow>
       upload_image ext cfg req rnd st = (HttpError 413, st)"
    by (simp add: upload_image_def)
  have lim: "MAX_CONTENT_LENGTH (Config base_dir url) = 10485760" by (simp add: Config_def)
  have one: "content_length req \<le> MAX_CONTENT_LENGTH cfg
        \<and> (files req ''image'' = None \<or> (\<exists>upl. files req ''image'' = Some upl \<and> filename upl = [])) \<longrightarrow>
       upload_image ext cfg req rnd st = (Abort 400 ''No file provided.'', st)"
    by (auto simp: upload_image_def)
  have two: "content_length req \<le> MAX_CONTENT_LENGTH cfg
        \<and> files req ''image'' = Some upl \<and> filename upl \<noteq> []
        \<and> \<not> is_allowed_file (filename upl) (ALLOWED_EXTENSIONS cfg) \<longrightarrow>
       upload_image ext cfg req rnd st = (Abort 400 ''Unsupported file type.'', st)"
    by (simp add: upload_image_def)
  have fail: "content_length req \<le> MAX_CONTENT_LENGTH cfg
        \<and> files req ''image'' = Some upl \<and> filename upl \<noteq> []
        \<and> is_allowed_file (filename upl) (ALLOWED_EXTENSIONS cfg)
        \<and> write_file (disk st)
             (os_path_join (UPLOAD_FOLDER cfg)
                (build_saved_filename (secure_filename ext) (generate_image_id rnd) (filename upl)))
             (stream upl) = Inl e \<longrightarrow>
       upload_image ext cfg req rnd st = (Unhandled e, st)"
    by (simp add: upload_image_def Let_def)
  have three: "\<exists>st'. upload_image ext (Config base_dir url) req rnd st
                = (Json [(''status'', JStr ''success''),
                         (''image_id'', JStr (generate_image_id rnd)),
                         (''message'', JStr ''Image uploaded successfully.'')], st')
            \<and> model_slot st' = model_slot st
            \<and> build_saved_filename (secure_filename ext) (generate_image_id rnd) (filename upl)
                 \<in> set (os_listdir (disk st') (UPLOAD_FOLDER (Config base_dir url)))
            \<and> read_file (disk st')
                 (os_path_join (UPLOAD_FOLDER (Config base_dir url))
                    (build_saved_filename (secure_filename ext) (generate_image_id rnd) (filename upl)))
                = Inr (stream upl)
            \<and> find_image_path_by_id (disk st') (generate_image_id rnd)
                 (UPLOAD_FOLDER (Config base_dir url)) \<noteq> None
            \<and> (find_image_path_by_id (disk st) (generate_image_id rnd)
                  (UPLOAD_FOLDER (Config base_dir url)) = None \<longrightarrow>
                find_image_path_by_id (disk st') (generate_image_id rnd)
                  (UPLOAD_FOLDER (Config base_dir url))
                = Some (os_path_join (UPLOAD_FOLDER (Config base_dir url))
                          (build_saved_filename (secure_filename ext) (generate_image_id rnd)
                             (filename upl))))"
    if sz: "content_length req \<le> MAX_CONTENT_LENGTH (Config base_dir url)"
    and f: "files req ''image'' = Some upl" and ne: "filename upl \<noteq> []"
    and ok: "is_allowed_file (filename upl) (ALLOWED_EXTENSIONS (Config base_dir url))"
    and dir: "os_path_isdir (disk st) (UPLOAD_FOLDER (Config base_dir url))"
    and sec: "CHR ''/'' \<notin> set (secure_filename ext (filename upl))"
    and short: "length (build_saved_filename (secure_filename ext) (generate_image_id rnd) (filename upl))
                  \<le> NAME_MAX"
  proof -
    let ?up = "UPLOAD_FOLDER (Config base_dir url)"
    let ?id = "generate_image_id rnd"
    let ?name = "build_saved_filename (secure_filename ext) ?id (filename upl)"
    let ?path = "os_path_join ?up ?name"
    from dir obtain entries where entries: "disk st ?up = Some entries"
      by (auto simp: os_path_isdir_def)
    have noslash: "CHR ''/'' \<notin> set ?name"
      using sec generate_image_id_no_slash [of rnd] by (simp add: build_saved_filename_def)
    have nonempty: "?name \<noteq> []" by (simp add: build_saved_filename_def)
    have split: "os_path_split ?path = (?up, ?name)"
      using noslash config_upload_folder_shape [of base_dir url] by (intro os_path_split_join) simp_all
    let ?fs' = "(disk st)(?up \<mapsto> AList.update ?name (stream upl) entries)"
    let ?st' = "st\<lparr>disk := ?fs'\<rparr>"
    have w: "write_file (disk st) ?path (stream upl) = Inr ?fs'"
      using entries nonempty short split by (rule write_file_into)
    have run: "upload_image ext (Config base_dir url) req rnd st
                = (Json [(''status'', JStr ''success''),
                         (''image_id'', JStr ?id),
                         (''message'', JStr ''Image uploaded successfully.'')], ?st')"
      using sz f ne ok w by (simp add: upload_image_def Let_def)
    have listed: "?name \<in> set (os_listdir (disk ?st') ?up)"
    proof -
      have "?name \<in> fst ` set (AList.update ?name (stream upl) entries)"
        by (simp add: dom_update)
      then show ?thesis by (simp add: os_listdir_def)
    qed
    have rd: "read_file (disk ?st') ?path = Inr (stream upl)"
      by (simp add: read_file_def split update_conv')
    have isdir': "os_path_isdir (disk ?st') ?up" by (simp add: os_path_isdir_def)
    have st: "startswith ?name (?id @ ''_'')"
      by (rule startswith_build_saved_filename)
    have "scan_names (?id @ ''_'') ?up (os_listdir (disk ?st') ?up) \<noteq> None"
      using listed st by (auto simp: scan_names_None)
    then have found: "find_image_path_by_id (disk ?st') ?id ?up \<noteq> None"
      using isdir' by (simp add: find_image_path_by_id_def)
    have fresh: "find_image_path_by_id (disk ?st') ?id ?up = Some ?path"
      if unused: "find_image_path_by_id (disk st) ?id ?up = None"
    proof -
      from unused dir entries have none: "\<forall>n\<in>set (map fst entries). \<not> startswith n (?id @ ''_'')"
        by (simp add: find_image_path_by_id_def os_listdir_def scan_names_None)
      with st have "?name \<notin> fst ` set entries" by auto
      then have "AList.update ?name (stream upl) entries = entries @ [(?name, stream upl)]"
        by (rule update_fresh)
      then have "os_listdir (disk ?st') ?up = map fst entries @ [?name]"
        by (simp add: os_listdir_def)
      then have "scan_names (?id @ ''_'') ?up (os_listdir (disk ?st') ?up) = Some ?path"
        using none st by (simp add: scan_names_append)
      then show ?thesis using isdir' by (simp add: find_image_path_by_id_def)
    qed
    have slot: "model_slot ?st' = model_slot st" by simp
    show ?thesis
      by (rule exI [of _ ?st']) (intro conjI impI run slot listed rd found fresh; assumption)
  qed
  have ids: "generate_image_id rnd = generate_image_id rnd' \<longleftrightarrow> drop_bit 96 rnd = drop_bit 96 rnd'"
    by (rule generate_image_id_eq_iff)
  show ?thesis
    by (intro conjI zero lim one two fail ids) (intro impI, elim conjE, rule three; assumption)
qed

theorem upload_image_responses_witness:
  "upload_image example_externals example_config
     \<lparr>content_length = 10485761, files = [''image'' \<mapsto> \<lparr>filename = ''scan.png'', stream = 9\<rparr>],
      host_url = ''http://localhost:5000/''\<rparr> 0 example_state
     = (HttpError 413, example_state)
   \<and> upload_image example_externals example_config
       \<lparr>content_length = 0, files = Map.empty, host_url = ''http://localhost:5000/''\<rparr>
       0 example_state = (Abort 400 ''No file provided.'', example_state)
   \<and> upload_image example_externals example_config
       \<lparr>content_length = 1000, files = [''image'' \<mapsto> \<lparr>filename = ''notes.txt'', stream = 9\<rparr>],
        host_url = ''http://localhost:5000/''\<rparr> 0 example_state
     = (Abort 400 ''Unsupported file type.'', example_state)
   \<and> upload_image example_externals example_config
       \<lparr>content_length = 1000, files = [''image'' \<mapsto> \<lparr>filename = ''scan.png'', stream = 9\<rparr>],
        host_url = ''http://localhost:5000/''\<rparr> 0 \<lparr>model_slot = None, disk = Map.empty\<rparr>
     = (Unhandled FileNotFoundError, \<lparr>model_slot = None, disk = Map.empty\<rparr>)
   \<and> (\<exists>st'. upload_image example_externals example_config
       \<lparr>content_length = 1000, files = [''image'' \<mapsto> \<lparr>filename = ''scan.png'', stream = 9\<rparr>],
        host_url = ''http://localhost:5000/''\<rparr> 0 example_state
         = (Json [(''status'', JStr ''success''), (''image_id'', JStr ''oct_00000000''),
                  (''message'', JStr ''Image uploaded successfully.'')], st')
        \<and> find_image_path_by_id (disk st') ''oct_00000000'' ''/srv/app/uploads''
            = Some ''/srv/app/uploads/oct_00000000_scan.png''
        \<and> read_file (disk st') ''/srv/app/uploads/oct_00000000_scan.png'' = Inr 9)
   \<and> generate_image_id (push_bit 96 1) \<noteq> generate_image_id 0"
proof -
  let ?png = "\<lparr>filename = ''scan.png'', stream = 9 :: nat\<rparr>"
  let ?txt = "\<lparr>filename = ''notes.txt'', stream = 9 :: nat\<rparr>"
  let ?big = "\<lparr>content_length = 10485761, files = [''image'' \<mapsto> ?png],
               host_url = ''http://localhost:5000/''\<rparr>"
  let ?none = "\<lparr>content_length = 0, files = Map.empty, host_url = ''http://localhost:5000/''\<rparr>
                 :: nat request"
  let ?rtxt = "\<lparr>content_length = 1000, files = [''image'' \<mapsto> ?txt],
                host_url = ''http://localhost:5000/''\<rparr>"
  let ?rpng = "\<lparr>content_length = 1000, files = [''image'' \<mapsto> ?png],
                host_url = ''http://localhost:5000/''\<rparr>"
  let ?nodisk = "\<lparr>model_slot = None, disk = Map.empty\<rparr> :: (nat, nat) app_state"
  have a0: "upload_image example_externals example_config ?big 0 example_state
              = (HttpError 413, example_state)"
    using upload_image_responses [where req = ?big and ext = example_externals
                                     and cfg = example_config and st = example_state and rnd = 0]
    by (simp add: example_limit)
  have a: "upload_image example_externals example_config ?none 0 example_state
             = (Abort 400 ''No file provided.'', example_state)"
    using upload_image_responses [where req = ?none and ext = example_externals
                                     and cfg = example_config and st = example_state and rnd = 0]
    by simp
  have b: "upload_image example_externals example_config ?rtxt 0 example_state
             = (Abort 400 ''Unsupported file type.'', example_state)"
    using upload_image_responses [where req = ?rtxt and ext = example_externals and upl = ?txt
                                     and cfg = example_config and st = example_state and rnd = 0]
          example_allowed(2)
    by (simp add: example_limit)
  have name: "build_saved_filename (secure_filename example_externals) (generate_image_id 0)
                (filename ?png) = ''oct_00000000_scan.png''"
    by (simp add: build_saved_filename_def example_externals_def example_id_zero)
  have wf: "write_file (disk ?nodisk)
              (os_path_join (UPLOAD_FOLDER example_config)
                 (build_saved_filename (secure_filename example_externals) (generate_image_id 0)
                    (filename ?png)))
              (stream ?png) = Inl FileNotFoundError"
    by (simp add: write_file_def)
  have c: "upload_image example_externals example_config ?rpng 0 ?nodisk
             = (Unhandled FileNotFoundError, ?nodisk)"
    using upload_image_responses [where req = ?rpng and ext = example_externals and upl = ?png
                                     and cfg = example_config and st = ?nodisk and rnd = 0
                                     and e = FileNotFoundError]
          example_allowed(1) wf
    by (simp add: example_limit)
  have sz: "content_length ?rpng \<le> MAX_CONTENT_LENGTH (Config ''/srv/app'' [])"
    by (simp add: Config_def)
  have good: "is_allowed_file (filename ?png) (ALLOWED_EXTENSIONS (Config ''/srv/app'' []))"
    using example_allowed(1) by (simp add: example_config_def)
  have dir: "os_path_isdir (disk example_state) (UPLOAD_FOLDER (Config ''/srv/app'' []))"
    using example_isdir example_upload_folder by (simp add: example_state_def example_config_def)
  have sec: "CHR ''/'' \<notin> set (secure_filename example_externals (filename ?png))"
    by (simp add: example_externals_def)
  have short: "length (build_saved_filename (secure_filename example_externals) (generate_image_id 0)
                 (filename ?png)) \<le> NAME_MAX"
    unfolding name by (simp add: NAME_MAX_def)
  have unused: "find_image_path_by_id (disk example_state) (generate_image_id 0)
                  (UPLOAD_FOLDER (Config ''/srv/app'' [])) = None"
    using example_upload_folder
    by (simp add: example_id_zero example_state_def example_config_def find_image_path_by_id_def
        example_isdir example_uploads startswith_def)
  have up: "UPLOAD_FOLDER (Config ''/srv/app'' []) = ''/srv/app/uploads''"
    using example_upload_folder by (simp add: example_config_def)
  have path: "os_path_join ''/srv/app/uploads'' ''oct_00000000_scan.png''
                = ''/srv/app/uploads/oct_00000000_scan.png''"
    by (simp add: os_path_join_def startswith_def)
  have prem: "content_length ?rpng \<le> MAX_CONTENT_LENGTH (Config ''/srv/app'' [])
        \<and> files ?rpng ''image'' = Some ?png \<and> filename ?png \<noteq> []
        \<and> is_allowed_file (filename ?png) (ALLOWED_EXTENSIONS (Config ''/srv/app'' []))
        \<and> os_path_isdir (disk example_state) (UPLOAD_FOLDER (Config ''/srv/app'' []))
        \<and> CHR ''/'' \<notin> set (secure_filename example_externals (filename ?png))
        \<and> length (build_saved_filename (secure_filename example_externals) (generate_image_id 0)
                     (filename ?png)) \<le> NAME_MAX"
    using sz good dir sec short by simp
  note saved = upload_image_responses
                 [where req = ?rpng and ext = example_externals and upl = ?png
                    and base_dir = "''/srv/app''" and url = "[]" and st = example_state and rnd = 0
                    and cfg = example_config and e = FileNotFoundError and rnd' = 0,
                  THEN conjunct2, THEN conjunct2, THEN conjunct2, THEN conjunct2, THEN conjunct2,
                  THEN conjunct1, THEN mp, OF prem]
  from saved obtain st' where
    s: "upload_image example_externals (Config ''/srv/app'' []) ?rpng 0 example_state
          = (Json [(''status'', JStr ''success''),
                   (''image_id'', JStr (generate_image_id 0)),
                   (''message'', JStr ''Image uploaded successfully.'')], st')"
       "read_file (disk st')
                 (os_path_join (UPLOAD_FOLDER (Config ''/srv/app'' []))
                    (build_saved_filename (secure_filename example_externals) (generate_image_id 0)
                       (filename ?png)))
                = Inr (stream ?png)"
       "find_image_path_by_id (disk example_state) (generate_image_id 0)
                  (UPLOAD_FOLDER (Config ''/srv/app'' [])) = None \<longrightarrow>
                find_image_path_by_id (disk st') (generate_image_id 0)
                  (UPLOAD_FOLDER (Config ''/srv/app'' []))
                = Some (os_path_join (UPLOAD_FOLDER (Config ''/srv/app'' []))
                          (build_saved_filename (secure_filename example_externals)
                             (generate_image_id 0) (filename ?png)))"
    by - (elim exE conjE, rule that; assumption)
  have d: "\<exists>st'. upload_image example_externals example_config ?rpng 0 example_state
         = (Json [(''status'', JStr ''success''), (''image_id'', JStr ''oct_00000000''),
                  (''message'', JStr ''Image uploaded successfully.'')], st')
        \<and> find_image_path_by_id (disk st') ''oct_00000000'' ''/srv/app/uploads''
            = Some ''/srv/app/uploads/oct_00000000_scan.png''
        \<and> read_file (disk st') ''/srv/app/uploads/oct_00000000_scan.png'' = Inr 9"
  proof -
    have s1: "upload_image example_externals example_config ?rpng 0 example_state
         = (Json [(''status'', JStr ''success''), (''image_id'', JStr ''oct_00000000''),
                  (''message'', JStr ''Image uploaded successfully.'')], st')"
      using s(1) by (simp only: example_config_def example_id_zero)
    have p0: "os_path_join (UPLOAD_FOLDER (Config ''/srv/app'' []))
                (build_saved_filename (secure_filename example_externals) (generate_image_id 0)
                   (filename ?png)) = ''/srv/app/uploads/oct_00000000_scan.png''"
      by (simp only: name up path)
    have s2: "read_file (disk st') ''/srv/app/uploads/oct_00000000_scan.png'' = Inr 9"
      using s(2) unfolding p0 by simp
    have s3: "find_image_path_by_id (disk st') ''oct_00000000'' ''/srv/app/uploads''
            = Some ''/srv/app/uploads/oct_00000000_scan.png''"
      using s(3) [THEN mp, OF unused] unfolding p0 by (simp only: example_id_zero up)
    from s1 s3 s2 show ?thesis by (intro exI [of _ st'] conjI)
  qed
  have "drop_bit 96 (push_bit 96 1 :: 128 word) \<noteq> drop_bit 96 0" by simp
  then have f: "generate_image_id (push_bit 96 1) \<noteq> generate_image_id 0"
    using upload_image_responses
            [where rnd = "push_bit 96 1" and rnd' = 0 and cfg = example_config and req = ?none
               and ext = example_externals and st = example_state and upl = ?png
               and base_dir = "''/srv/app''" and url = "[]" and e = FileNotFoundError,
             THEN conjunct2, THEN conjunct2, THEN conjunct2, THEN conjunct2, THEN conjunct2,
             THEN conjunct2]
    by simp
  from a0 a b c d f show ?thesis by (intro conjI)
qed

text \<open>
  As written the claim has two answers only for a request with an allowed file, and a
  new id for each saved file. A request of 10485761 bytes with an allowed file is
  answered 413 and nothing is saved. And with the draw whose first eight digits are
  \<open>00000001\<close>, uploading \<open>scan.png\<close> returns the id \<open>oct_00000001\<close>, which an earlier
  upload already has: the directory lists the same names as before and the earlier
  upload's content, 5, has been replaced by the new content, 9.
\<close>

theorem upload_image_counterexample:
  "upload_image example_externals example_config
     \<lparr>content_length = 10485761, files = [''image'' \<mapsto> \<lparr>filename = ''scan.png'', stream = 9\<rparr>],
      host_url = ''http://localhost:5000/''\<rparr> 0 example_state
     = (HttpError 413, example_state)
   \<and> read_file example_disk ''/srv/app/uploads/oct_00000001_scan.png'' = Inr 5
   \<and> fst (upload_image example_externals example_config
       \<lparr>content_length = 1000, files = [''image'' \<mapsto> \<lparr>filename = ''scan.png'', stream = 9\<rparr>],
        host_url = ''http://localhost:5000/''\<rparr> 79228162514264337593543950336 example_state)
     = Json [(''status'', JStr ''success''), (''image_id'', JStr ''oct_00000001''),
             (''message'', JStr ''Image uploaded successfully.'')]
   \<and> os_listdir (disk (snd (upload_image example_externals example_config
       \<lparr>content_length = 1000, files = [''image'' \<mapsto> \<lparr>filename = ''scan.png'', stream = 9\<rparr>],
        host_url = ''http://localhost:5000/''\<rparr> 79228162514264337593543950336 example_state))) ''/srv/app/uploads''
     = os_listdir example_disk ''/srv/app/uploads''
   \<and> read_file (disk (snd (upload_image example_externals example_config
       \<lparr>content_length = 1000, files = [''image'' \<mapsto> \<lparr>filename = ''scan.png'', stream = 9\<rparr>],
        host_url = ''http://localhost:5000/''\<rparr> 79228162514264337593543950336 example_state)))
       ''/srv/app/uploads/oct_00000001_scan.png'' = Inr 9"
proof -
  have big: "upload_image example_externals example_config
     \<lparr>content_length = 10485761, files = [''image'' \<mapsto> \<lparr>filename = ''scan.png'', stream = 9\<rparr>],
      host_url = ''http://localhost:5000/''\<rparr> 0 example_state
     = (HttpError 413, example_state)"
    by (simp add: upload_image_def example_limit)
  have rd: "read_file (example_disk(''/srv/app/uploads'' \<mapsto>
                [(''oct_00000002_notes.png'', 0), (''oct_00000001_scan.png'', 9),
                 (''oct_00000001_again.png'', 6)])) ''/srv/app/uploads/oct_00000001_scan.png'' = Inr 9"
    by (simp add: read_file_def os_path_split_def rstrip_def)
  have ls: "os_listdir (example_disk(''/srv/app/uploads'' \<mapsto>
                [(''oct_00000002_notes.png'', 0), (''oct_00000001_scan.png'', 9),
                 (''oct_00000001_again.png'', 6)])) ''/srv/app/uploads''
            = os_listdir example_disk ''/srv/app/uploads''"
    by (simp add: os_listdir_def example_uploads [unfolded os_listdir_def])
  show ?thesis
    by (simp add: big example_read_scan example_upload_again rd ls)
qed

end
